theory Spec2Isabelle
  imports Complex_Main
begin

section \<open>JavaScript values as the service sees them\<close>

text \<open>
  The service (\<^verbatim>\<open>src/modules/razorpay/service.ts\<close>) is TypeScript; at run time its
  inputs are JavaScript values. The session data is a \<^verbatim>\<open>Record<string, unknown>\<close>,
  so the model keeps it untyped: a value is undefined, null, a boolean, a number, a
  string or an object (an association list from property names to values, in insertion
  order). Arrays and functions do not occur in what the modelled methods read.

  A number is an IEEE double: a finite value (kept as the rational it denotes; the
  negative zero is identified with zero), NaN, or an infinity.
\<close>

datatype jsnum = Finite rat | NaN | PosInfinity | NegInfinity

datatype jsval =
    JUndefined
  | JNull
  | JBool bool
  | JNum jsnum
  | JStr string
  | JObj "(string \<times> jsval) list"

text \<open>
  What a \<^verbatim>\<open>throw\<close> or a rejected promise carries: a \<^verbatim>\<open>MedusaError\<close> (type and
  message), a built-in \<^verbatim>\<open>Error\<close>/\<^verbatim>\<open>TypeError\<close> (message), or whatever value the
  gateway SDK rejected with.
\<close>

datatype medusa_error_type = INVALID_DATA | UNEXPECTED_STATE

datatype exn =
    MedusaError medusa_error_type string
  | JsError string
  | Rejected jsval

text \<open>
  The parts of the platform that the service calls and that are not part of the
  repository are parameters of the model: node's \<^verbatim>\<open>crypto\<close> HMAC, the rounding of a
  real to the nearest double, the printing and reading of numbers that are not small
  integers, \<^verbatim>\<open>JSON.stringify\<close>, the texts of the engine's TypeErrors, the constructor
  of Medusa's \<^verbatim>\<open>BigNumber\<close> and the clock.
\<close>

record runtime =
  hmac_sha256_hex :: "string \<Rightarrow> string \<Rightarrow> string"
    \<comment> \<open>\<^verbatim>\<open>crypto.createHmac("sha256", key).update(msg).digest("hex")\<close>, key first\<close>
  round_double :: "rat \<Rightarrow> jsnum"
    \<comment> \<open>the double nearest to a real (an infinity on overflow)\<close>
  number_repr :: "rat \<Rightarrow> string"
    \<comment> \<open>\<^verbatim>\<open>Number::toString\<close> of a positive double that is no integer below \<open>10^21\<close>\<close>
  string_to_number :: "string \<Rightarrow> jsnum"
    \<comment> \<open>\<^verbatim>\<open>ToNumber\<close> of a string\<close>
  json_stringify :: "jsval \<Rightarrow> jsval"
  type_error_message :: "jsval \<Rightarrow> string \<Rightarrow> string"
    \<comment> \<open>the message of the TypeError of reading property \<open>k\<close> of undefined or null\<close>
  to_primitive_error_message :: string
    \<comment> \<open>the message of the TypeError of converting an object to a primitive value\<close>
  not_a_function_message :: "string \<Rightarrow> string"
    \<comment> \<open>the message of the TypeError of calling the property \<open>k\<close> that is no function\<close>
  new_BigNumber :: "jsnum \<Rightarrow> exn + jsval"
    \<comment> \<open>\<^verbatim>\<open>new BigNumber(n)\<close> of \<^verbatim>\<open>@medusajs/framework/utils\<close>\<close>
  date_now :: nat
    \<comment> \<open>\<^verbatim>\<open>Date.now()\<close>\<close>

subsection \<open>Truthiness and property reads\<close>

fun truthy :: "jsval \<Rightarrow> bool" where
  "truthy JUndefined = False"
| "truthy JNull = False"
| "truthy (JBool b) = b"
| "truthy (JNum n) = (n \<noteq> Finite 0 \<and> n \<noteq> NaN)"
| "truthy (JStr s) = (s \<noteq> [])"
| "truthy (JObj kvs) = True"

definition nullish :: "jsval \<Rightarrow> bool" where
  "nullish v = (v = JUndefined \<or> v = JNull)"

definition lookup :: "string \<Rightarrow> (string \<times> jsval) list \<Rightarrow> jsval" where
  "lookup k kvs = (case map_of kvs k of None \<Rightarrow> JUndefined | Some v \<Rightarrow> v)"

text \<open>
  \<^verbatim>\<open>v?.k\<close>: undefined when \<open>v\<close> is undefined or null, the property otherwise. None of
  the names the service reads is a built-in property of a string, a number or a
  boolean, so reading one off a primitive gives undefined.
\<close>

fun get_prop :: "string \<Rightarrow> jsval \<Rightarrow> jsval" where
  "get_prop k (JObj kvs) = lookup k kvs"
| "get_prop k v = JUndefined"

text \<open>\<^verbatim>\<open>v.k\<close>: a TypeError when \<open>v\<close> is undefined or null.\<close>

definition get_strict :: "runtime \<Rightarrow> string \<Rightarrow> jsval \<Rightarrow> exn + jsval" where
  "get_strict rt k v =
     (if nullish v then Inl (JsError (type_error_message rt v k)) else Inr (get_prop k v))"

text \<open>Whether an object has a property \<open>k\<close> of its own, whatever its value.\<close>

definition has_own :: "string \<Rightarrow> jsval \<Rightarrow> bool" where
  "has_own k v = (case v of JObj kvs \<Rightarrow> map_of kvs k \<noteq> None | _ \<Rightarrow> False)"

text \<open>
  An object literal \<^verbatim>\<open>{...v, k: w}\<close>: \<^verbatim>\<open>...v\<close> copies the own enumerable properties
  of \<open>v\<close> (the characters of a string under their indices, nothing for another
  primitive), and \<^verbatim>\<open>k: w\<close> then overwrites the property \<open>k\<close> where it stands or adds
  it at the end.
\<close>

fun set_prop :: "string \<Rightarrow> jsval \<Rightarrow> (string \<times> jsval) list \<Rightarrow> (string \<times> jsval) list" where
  "set_prop k v [] = [(k, v)]"
| "set_prop k v ((k', v') # kvs) =
     (if k = k' then (k, v) # kvs else (k', v') # set_prop k v kvs)"

subsection \<open>Decimal digits\<close>

definition digit_char :: "nat \<Rightarrow> char" where
  "digit_char d = ''0123456789'' ! d"

fun show_nat :: "nat \<Rightarrow> string" where
  "show_nat n = (if n < 10 then [digit_char n] else show_nat (n div 10) @ [digit_char (n mod 10)])"

declare show_nat.simps [simp del]

definition is_digit :: "char \<Rightarrow> bool" where
  "is_digit c = (c \<in> set ''0123456789'')"

definition digit_val :: "char \<Rightarrow> nat" where
  "digit_val c = of_char c - 48"

definition digits_val :: "string \<Rightarrow> nat" where
  "digits_val s = foldl (\<lambda>acc c. 10 * acc + digit_val c) 0 s"

fun spread :: "jsval \<Rightarrow> (string \<times> jsval) list" where
  "spread (JObj kvs) = kvs"
| "spread (JStr s) = zip (map show_nat [0..<length s]) (map (\<lambda>c. JStr [c]) s)"
| "spread v = []"

text \<open>\<^verbatim>\<open>a || b\<close>.\<close>

definition js_or :: "jsval \<Rightarrow> jsval \<Rightarrow> jsval" where
  "js_or a b = (if truthy a then a else b)"

subsection \<open>Numbers to strings and back\<close>

text \<open>
  \<^verbatim>\<open>Number::toString\<close> (ECMA-262): the decimal digits of an integer below \<open>10^21\<close>,
  with its sign; the runtime's shortest representation for every other finite value.
\<close>

definition is_integer :: "rat \<Rightarrow> bool" where
  "is_integer r = (of_int \<lfloor>r\<rfloor> = r)"

definition number_to_string :: "runtime \<Rightarrow> jsnum \<Rightarrow> string" where
  "number_to_string rt n =
     (case n of
        NaN \<Rightarrow> ''NaN''
      | PosInfinity \<Rightarrow> ''Infinity''
      | NegInfinity \<Rightarrow> ''-Infinity''
      | Finite r \<Rightarrow>
          (if r = 0 then ''0''
           else (if r < 0 then ''-'' else []) @
                (if is_integer \<bar>r\<bar> \<and> \<bar>r\<bar> < 10 ^ 21 then show_nat (nat \<lfloor>\<bar>r\<bar>\<rfloor>)
                 else number_repr rt \<bar>r\<bar>)))"

text \<open>
  \<^verbatim>\<open>ToString\<close>, as a template literal applies it to a substitution. The values here
  are data: no property of an object is a function. An object with no \<^verbatim>\<open>toString\<close> of
  its own prints through \<^verbatim>\<open>Object.prototype.toString\<close> as \<^verbatim>\<open>[object Object]\<close>. An
  object that has a property \<^verbatim>\<open>toString\<close> of its own cannot be converted: that
  property is not callable, and \<^verbatim>\<open>valueOf\<close> (its own, not callable, or the inherited
  one, which returns the object) gives no primitive either, so the conversion throws a
  TypeError.
\<close>

definition to_string :: "runtime \<Rightarrow> jsval \<Rightarrow> exn + string" where
  "to_string rt v =
     (case v of
        JUndefined \<Rightarrow> Inr ''undefined''
      | JNull \<Rightarrow> Inr ''null''
      | JBool b \<Rightarrow> Inr (if b then ''true'' else ''false'')
      | JNum n \<Rightarrow> Inr (number_to_string rt n)
      | JStr s \<Rightarrow> Inr s
      | JObj kvs \<Rightarrow>
          if has_own ''toString'' v then Inl (JsError (to_primitive_error_message rt))
          else Inr ''[object Object]'')"

text \<open>The template literal \<^verbatim>\<open>`prefix${v}`\<close>.\<close>

definition template :: "runtime \<Rightarrow> string \<Rightarrow> jsval \<Rightarrow> exn + string" where
  "template rt prefix v =
     (case to_string rt v of Inl e \<Rightarrow> Inl e | Inr s \<Rightarrow> Inr (prefix @ s))"

text \<open>\<^verbatim>\<open>ToNumber\<close>, as \<^verbatim>\<open>v / 100\<close> applies it to its left operand.\<close>

definition to_number :: "runtime \<Rightarrow> jsval \<Rightarrow> jsnum" where
  "to_number rt v =
     (case v of
        JUndefined \<Rightarrow> NaN
      | JNull \<Rightarrow> Finite 0
      | JBool b \<Rightarrow> Finite (if b then 1 else 0)
      | JNum n \<Rightarrow> n
      | JStr s \<Rightarrow> string_to_number rt s
      | JObj kvs \<Rightarrow> NaN)"

text \<open>\<^verbatim>\<open>n * 100\<close> and \<^verbatim>\<open>n / 100\<close> on doubles: the exact result, rounded to a double.\<close>

definition mul100 :: "runtime \<Rightarrow> jsnum \<Rightarrow> jsnum" where
  "mul100 rt n = (case n of Finite r \<Rightarrow> round_double rt (r * 100) | _ \<Rightarrow> n)"

definition div100 :: "runtime \<Rightarrow> jsnum \<Rightarrow> jsnum" where
  "div100 rt n = (case n of Finite r \<Rightarrow> round_double rt (r / 100) | _ \<Rightarrow> n)"

text \<open>
  \<^verbatim>\<open>Number.prototype.toFixed(0)\<close> (ECMA-262, 21.1.3.3): a value that is not finite
  prints as \<^verbatim>\<open>Number::toString\<close> prints it; otherwise the sign, then, below \<open>10^21\<close>,
  the digits of the integer \<open>n\<close> nearest to the magnitude, the larger \<open>n\<close> on a tie,
  and from \<open>10^21\<close> on the \<^verbatim>\<open>Number::toString\<close> of the magnitude.
\<close>

definition toFixed0 :: "runtime \<Rightarrow> jsnum \<Rightarrow> string" where
  "toFixed0 rt n =
     (case n of
        Finite r \<Rightarrow>
          (if r < 0 then ''-'' else []) @
          (if \<bar>r\<bar> < 10 ^ 21 then show_nat (nat \<lfloor>\<bar>r\<bar> + 1 / 2\<rfloor>) else number_repr rt \<bar>r\<bar>)
      | _ \<Rightarrow> number_to_string rt n)"

text \<open>
  \<^verbatim>\<open>parseInt(s)\<close> with no radix (ECMA-262, 19.2.5): leading white space is skipped, a
  sign is read, a prefix \<^verbatim>\<open>0x\<close> selects radix 16, the longest prefix of digits is read,
  and the result is NaN when that prefix is empty.
\<close>

definition is_white :: "char \<Rightarrow> bool" where
  "is_white c = (c \<in> set [CHR '' '', CHR 0x09, CHR 0x0A, CHR 0x0B, CHR 0x0C, CHR 0x0D])"

definition hex_val :: "char \<Rightarrow> nat option" where
  "hex_val c =
     (let k = (of_char c :: nat) in
      if 48 \<le> k \<and> k \<le> 57 then Some (k - 48)
      else if 97 \<le> k \<and> k \<le> 102 then Some (k - 87)
      else if 65 \<le> k \<and> k \<le> 70 then Some (k - 55)
      else None)"

definition parseInt :: "runtime \<Rightarrow> string \<Rightarrow> jsnum" where
  "parseInt rt inputString =
     (let s = dropWhile is_white inputString;
          neg = (case s of c # _ \<Rightarrow> c = CHR ''-'' | [] \<Rightarrow> False);
          s1 = (case s of c # cs \<Rightarrow> if c = CHR ''-'' \<or> c = CHR ''+'' then cs else s | [] \<Rightarrow> s);
          hex = (take 2 s1 = ''0x'' \<or> take 2 s1 = ''0X'');
          s2 = (if hex then drop 2 s1 else s1);
          z = (if hex then takeWhile (\<lambda>c. hex_val c \<noteq> None) s2 else takeWhile is_digit s2);
          mathInt = (if hex then foldl (\<lambda>acc c. 16 * acc + the (hex_val c)) 0 z
                     else digits_val z)
      in if z = [] then NaN
         else round_double rt (if neg then - of_nat mathInt else of_nat mathInt))"

text \<open>The minor-unit amount: \<^verbatim>\<open>parseInt((amount * 100).toFixed(0))\<close>.\<close>

definition minor_units :: "runtime \<Rightarrow> jsnum \<Rightarrow> jsnum" where
  "minor_units rt amount = parseInt rt (toFixed0 rt (mul100 rt amount))"

text \<open>
  \<^verbatim>\<open>String.prototype.toUpperCase\<close> on the letters a to z (currency codes are ASCII);
  every other character is kept.
\<close>

definition toUpperCase :: "string \<Rightarrow> string" where
  "toUpperCase s =
     map (\<lambda>c. case map_of (zip ''abcdefghijklmnopqrstuvwxyz'' ''ABCDEFGHIJKLMNOPQRSTUVWXYZ'') c of
                 None \<Rightarrow> c | Some u \<Rightarrow> u) s"

section \<open>The provider service, its gateway client and its logger\<close>

text \<open>
  \<^verbatim>\<open>RazorpayProviderService\<close> holds its options, the Razorpay SDK client and a logger.
  The SDK is not part of the repository: a call to it is an effect, recorded in a trace,
  and its answer (the value the promise resolves to, or what it rejects with) is given
  by the client as a function of the trace so far and of the call. The logger's
  \<^verbatim>\<open>error\<close> lines are recorded in the same trace. Every method takes the trace at its
  start and returns the trace at its end, with what it returns or throws. The
  \<^verbatim>\<open>console.log\<close> lines of the constructor and of \<^verbatim>\<open>initiatePayment\<close> are left out:
  nothing reads what they print. The fields \<^verbatim>\<open>options_\<close> and \<^verbatim>\<open>client_\<close> are named
  \<open>options\<close> and \<open>client\<close>.
\<close>

datatype call =
    OrdersCreate jsval
  | OrdersFetch jsval
  | PaymentsFetch jsval
  | PaymentsCapture jsval jsval
  | PaymentsRefund jsval jsval

datatype effect = GatewayCall call | LoggerError string

type_synonym trace = "effect list"

record razorpay_options =
  key_id :: string
  key_secret :: string
  webhook_secret :: "string option"

record service =
  options :: razorpay_options
  client :: "trace \<Rightarrow> call \<Rightarrow> exn + jsval"

fun gateway_calls :: "trace \<Rightarrow> call list" where
  "gateway_calls [] = []"
| "gateway_calls (GatewayCall c # es) = c # gateway_calls es"
| "gateway_calls (LoggerError m # es) = gateway_calls es"

definition invoke :: "service \<Rightarrow> call \<Rightarrow> trace \<Rightarrow> (exn + jsval) \<times> trace" where
  "invoke svc c tr = (client svc tr c, tr @ [GatewayCall c])"

text \<open>
  The inputs and outputs of the methods are objects with a \<^verbatim>\<open>data\<close> property and, by
  method, an amount and a currency code, a status, an order id, an action, or the
  headers and the raw body of a webhook. A \<^verbatim>\<open>data\<close> that is undefined stands for an
  absent property.
\<close>

datatype payment_session_status =
  Status_authorized | Status_captured | Status_pending | Status_error

datatype payment_action =
  Action_authorized | Action_captured | Action_refunded | Action_failed | Action_not_supported

record payment_data =
  data :: jsval

record amount_input = payment_data +
  amount :: jsnum

record initiate_input = amount_input +
  currency_code :: string

record initiate_output = payment_data +
  order_id :: jsval

record status_output = payment_data +
  status :: payment_session_status

record webhook_payload = payment_data +
  headers :: jsval
  rawData :: jsval

record webhook_result = payment_data +
  action :: payment_action

subsection \<open>Exceptions\<close>

text \<open>\<^verbatim>\<open>error.message\<close> in a \<^verbatim>\<open>catch (error)\<close>: itself a TypeError when a promise
  rejected with undefined or null.\<close>

definition message_of :: "runtime \<Rightarrow> exn \<Rightarrow> exn + jsval" where
  "message_of rt e =
     (case e of
        MedusaError t m \<Rightarrow> Inr (JStr m)
      | JsError m \<Rightarrow> Inr (JStr m)
      | Rejected v \<Rightarrow> get_strict rt ''message'' v)"

text \<open>
  The handler shared by \<^verbatim>\<open>capturePayment\<close>, \<^verbatim>\<open>cancelPayment\<close> and
  \<^verbatim>\<open>refundPayment\<close>: log \<^verbatim>\<open>`${prefix}${error.message}`\<close> and throw a MedusaError of type
  \<^verbatim>\<open>UNEXPECTED_STATE\<close> with the same text. A message that cannot be converted to a
  string makes the handler itself throw, before it logs.
\<close>

definition catch_rethrow :: "runtime \<Rightarrow> string \<Rightarrow> exn \<Rightarrow> trace \<Rightarrow> (exn + 'a) \<times> trace" where
  "catch_rethrow rt prefix e tr =
     (case message_of rt e of
        Inl e' \<Rightarrow> (Inl e', tr)
      | Inr m \<Rightarrow>
          (case template rt prefix m of
             Inl e' \<Rightarrow> (Inl e', tr)
           | Inr msg \<Rightarrow> (Inl (MedusaError UNEXPECTED_STATE msg), tr @ [LoggerError msg])))"

subsection \<open>Signatures (lines 566 to 586)\<close>

definition verifySignature :: "runtime \<Rightarrow> service \<Rightarrow> string \<Rightarrow> jsval \<Rightarrow> bool" where
  "verifySignature rt svc payload signature =
     (let expectedSignature = hmac_sha256_hex rt (key_secret (options svc)) payload
      in JStr expectedSignature = signature)"

text \<open>\<^verbatim>\<open>this.options_.webhook_secret\<close> as a condition: set and not the empty string.\<close>

definition secret_configured :: "service \<Rightarrow> bool" where
  "secret_configured svc =
     (case webhook_secret (options svc) of None \<Rightarrow> False | Some s \<Rightarrow> s \<noteq> [])"

definition verifyWebhookSignature :: "runtime \<Rightarrow> service \<Rightarrow> string \<Rightarrow> jsval \<Rightarrow> bool" where
  "verifyWebhookSignature rt svc payload signature =
     (if \<not> secret_configured svc then False
      else
        let expectedSignature =
              hmac_sha256_hex rt (the (webhook_secret (options svc))) payload
        in JStr expectedSignature = signature)"

subsection \<open>\<^verbatim>\<open>initiatePayment\<close> (lines 85 to 143)\<close>

definition initiatePayment_try ::
  "runtime \<Rightarrow> service \<Rightarrow> initiate_input \<Rightarrow> trace \<Rightarrow> (exn + initiate_output) \<times> trace" where
  "initiatePayment_try rt svc input tr =
     (let paymentAmount = minor_units rt (amount input);
          orderPayload =
            JObj [(''amount'', JNum paymentAmount),
                  (''currency'', JStr (toUpperCase (currency_code input))),
                  (''receipt'', JStr (''medusa_'' @ show_nat (date_now rt))),
                  (''notes'', JObj [(''medusa_payment_provider'', JStr ''razorpay'')])]
      in case invoke svc (OrdersCreate orderPayload) tr of
           (Inl e, tr') \<Rightarrow> (Inl e, tr')
         | (Inr razorpayOrder, tr') \<Rightarrow>
             (case get_strict rt ''id'' razorpayOrder of
                Inl e \<Rightarrow> (Inl e, tr')
              | Inr i \<Rightarrow> (Inr \<lparr>data = razorpayOrder, order_id = i\<rparr>, tr')))"

text \<open>
  What the handler of \<^verbatim>\<open>initiatePayment\<close> reads its message from: the value a promise
  rejected with, or, for an Error object, an object holding its message.
\<close>

definition exn_value :: "exn \<Rightarrow> jsval" where
  "exn_value e =
     (case e of
        MedusaError t m \<Rightarrow> JObj [(''message'', JStr m)]
      | JsError m \<Rightarrow> JObj [(''message'', JStr m)]
      | Rejected v \<Rightarrow> v)"

definition detailedMessage :: "runtime \<Rightarrow> exn \<Rightarrow> jsval" where
  "detailedMessage rt e =
     (let errorData = js_or (get_prop ''error'' (exn_value e)) (exn_value e)
      in js_or (get_prop ''description'' errorData)
           (js_or (get_prop ''message'' errorData)
              (js_or (get_prop ''description'' (get_prop ''error'' errorData))
                 (json_stringify rt errorData))))"

definition initiatePayment ::
  "runtime \<Rightarrow> service \<Rightarrow> initiate_input \<Rightarrow> trace \<Rightarrow> (exn + initiate_output) \<times> trace" where
  "initiatePayment rt svc input tr =
     (case initiatePayment_try rt svc input tr of
        (Inr out, tr') \<Rightarrow> (Inr out, tr')
      | (Inl e, tr') \<Rightarrow>
          (case template rt ''Failed to initiate Razorpay payment: '' (detailedMessage rt e) of
             Inl e' \<Rightarrow> (Inl e', tr')
           | Inr msg \<Rightarrow> (Inl (MedusaError UNEXPECTED_STATE msg), tr' @ [LoggerError msg])))"

subsection \<open>\<^verbatim>\<open>authorizePayment\<close> (lines 145 to 215)\<close>

definition authorizePayment_try ::
  "runtime \<Rightarrow> service \<Rightarrow> jsval \<Rightarrow> trace \<Rightarrow> (exn + status_output) \<times> trace" where
  "authorizePayment_try rt svc d tr =
     (if truthy (get_prop ''razorpay_payment_id'' d) \<and> truthy (get_prop ''razorpay_signature'' d)
      then
        let orderId = get_prop ''razorpay_order_id'' d;
            paymentId = get_prop ''razorpay_payment_id'' d;
            signature = get_prop ''razorpay_signature'' d
        in case to_string rt orderId of
             Inl e \<Rightarrow> (Inl e, tr)
           | Inr orderText \<Rightarrow>
               (case to_string rt paymentId of
                  Inl e \<Rightarrow> (Inl e, tr)
                | Inr paymentText \<Rightarrow>
                    let payload = orderText @ ''|'' @ paymentText;
                        isValid = verifySignature rt svc payload signature
                    in if \<not> isValid then
                         (Inr \<lparr>data = JObj (set_prop ''error'' (JStr ''Invalid payment signature'')
                                              (spread d)),
                               status = Status_error\<rparr>, tr)
                       else
                         (case invoke svc (PaymentsFetch paymentId) tr of
                            (Inl e, tr') \<Rightarrow> (Inl e, tr')
                          | (Inr payment, tr') \<Rightarrow>
                              (case get_strict rt ''status'' payment of
                                 Inl e \<Rightarrow> (Inl e, tr')
                               | Inr st \<Rightarrow>
                                   if st = JStr ''authorized'' \<or> st = JStr ''captured'' then
                                     (Inr \<lparr>data = JObj (set_prop ''payment_details'' payment
                                                          (spread d)),
                                           status = (if st = JStr ''captured'' then Status_captured
                                                     else Status_authorized)\<rparr>, tr')
                                   else
                                     (Inr \<lparr>data = JObj (set_prop ''payment_details'' payment
                                                          (spread d)),
                                           status = Status_pending\<rparr>, tr'))))
      else (Inr \<lparr>data = d, status = Status_pending\<rparr>, tr))"

definition authorizePayment ::
  "runtime \<Rightarrow> service \<Rightarrow> payment_data \<Rightarrow> trace \<Rightarrow> (exn + status_output) \<times> trace" where
  "authorizePayment rt svc input tr =
     (case authorizePayment_try rt svc (data input) tr of
        (Inr out, tr') \<Rightarrow> (Inr out, tr')
      | (Inl e, tr') \<Rightarrow>
          (case message_of rt e of
             Inl e' \<Rightarrow> (Inl e', tr')
           | Inr m \<Rightarrow>
               (case template rt ''Failed to authorize Razorpay payment: '' m of
                  Inl e' \<Rightarrow> (Inl e', tr')
                | Inr line \<Rightarrow>
                    (Inr \<lparr>data = JObj (set_prop ''error'' m (spread (data input))),
                          status = Status_error\<rparr>,
                     tr' @ [LoggerError line]))))"

subsection \<open>\<^verbatim>\<open>capturePayment\<close> (lines 217 to 253)\<close>

definition capturePayment_try ::
  "runtime \<Rightarrow> service \<Rightarrow> jsval \<Rightarrow> trace \<Rightarrow> (exn + payment_data) \<times> trace" where
  "capturePayment_try rt svc d tr =
     (if \<not> truthy (get_prop ''id'' (get_prop ''payment_details'' d)) then
        (Inl (MedusaError INVALID_DATA ''Payment ID is required to capture payment''), tr)
      else
        let payment_details = get_prop ''payment_details'' d;
            paymentId = get_prop ''id'' payment_details
        in case invoke svc (PaymentsCapture paymentId (get_prop ''amount'' payment_details)) tr of
             (Inl e, tr') \<Rightarrow> (Inl e, tr')
           | (Inr capturedPayment, tr') \<Rightarrow>
               (Inr \<lparr>data = JObj (set_prop ''payment_details'' capturedPayment (spread d))\<rparr>, tr'))"

definition capturePayment ::
  "runtime \<Rightarrow> service \<Rightarrow> payment_data \<Rightarrow> trace \<Rightarrow> (exn + payment_data) \<times> trace" where
  "capturePayment rt svc input tr =
     (case capturePayment_try rt svc (data input) tr of
        (Inr out, tr') \<Rightarrow> (Inr out, tr')
      | (Inl e, tr') \<Rightarrow> catch_rethrow rt ''Failed to capture Razorpay payment: '' e tr')"

subsection \<open>\<^verbatim>\<open>cancelPayment\<close> (lines 255 to 295)\<close>

definition cancelPayment_try ::
  "runtime \<Rightarrow> service \<Rightarrow> jsval \<Rightarrow> trace \<Rightarrow> (exn + payment_data) \<times> trace" where
  "cancelPayment_try rt svc d tr =
     (let payment_details = get_prop ''payment_details'' d in
      if truthy (get_prop ''id'' payment_details) \<and>
         get_prop ''status'' payment_details = JStr ''authorized''
      then
        case invoke svc
               (PaymentsRefund (get_prop ''id'' payment_details)
                  (JObj [(''amount'', get_prop ''amount'' payment_details),
                         (''notes'', JObj [(''cancellation_reason'',
                                            JStr ''Payment cancelled by merchant'')])])) tr of
          (Inl e, tr') \<Rightarrow> (Inl e, tr')
        | (Inr refund, tr') \<Rightarrow>
            (case invoke svc (PaymentsFetch (get_prop ''id'' payment_details)) tr' of
               (Inl e, tr'') \<Rightarrow> (Inl e, tr'')
             | (Inr updatedPayment, tr'') \<Rightarrow>
                 (Inr \<lparr>data = JObj (set_prop ''payment_details'' updatedPayment (spread d))\<rparr>,
                  tr''))
      else (Inr \<lparr>data = d\<rparr>, tr))"

definition cancelPayment ::
  "runtime \<Rightarrow> service \<Rightarrow> payment_data \<Rightarrow> trace \<Rightarrow> (exn + payment_data) \<times> trace" where
  "cancelPayment rt svc input tr =
     (case cancelPayment_try rt svc (data input) tr of
        (Inr out, tr') \<Rightarrow> (Inr out, tr')
      | (Inl e, tr') \<Rightarrow> catch_rethrow rt ''Failed to cancel Razorpay payment: '' e tr')"

subsection \<open>\<^verbatim>\<open>refundPayment\<close> (lines 297 to 336)\<close>

definition refundPayment_try ::
  "runtime \<Rightarrow> service \<Rightarrow> amount_input \<Rightarrow> trace \<Rightarrow> (exn + payment_data) \<times> trace" where
  "refundPayment_try rt svc input tr =
     (let d = data input in
      if \<not> truthy (get_prop ''id'' (get_prop ''payment_details'' d)) then
        (Inl (MedusaError INVALID_DATA ''Payment ID is required to refund payment''), tr)
      else
        let refundAmount = minor_units rt (amount input)
        in case invoke svc
                  (PaymentsRefund (get_prop ''id'' (get_prop ''payment_details'' d))
                     (JObj [(''amount'', JNum refundAmount),
                            (''notes'', JObj [(''refund_reason'',
                                               JStr ''Refund requested by merchant'')])])) tr of
             (Inl e, tr') \<Rightarrow> (Inl e, tr')
           | (Inr refundData, tr') \<Rightarrow>
               (Inr \<lparr>data = JObj (set_prop ''refund_details'' refundData (spread d))\<rparr>, tr'))"

definition refundPayment ::
  "runtime \<Rightarrow> service \<Rightarrow> amount_input \<Rightarrow> trace \<Rightarrow> (exn + payment_data) \<times> trace" where
  "refundPayment rt svc input tr =
     (case refundPayment_try rt svc input tr of
        (Inr out, tr') \<Rightarrow> (Inr out, tr')
      | (Inl e, tr') \<Rightarrow> catch_rethrow rt ''Failed to refund Razorpay payment: '' e tr')"

subsection \<open>\<^verbatim>\<open>getPaymentStatus\<close> (lines 344 to 395)\<close>

text \<open>The \<^verbatim>\<open>switch (payment.status)\<close> of lines 356 to 367.\<close>

definition payment_status_switch :: "jsval \<Rightarrow> payment_session_status" where
  "payment_status_switch st =
     (if st = JStr ''created'' then Status_pending
      else if st = JStr ''authorized'' then Status_authorized
      else if st = JStr ''captured'' then Status_captured
      else if st = JStr ''failed'' then Status_error
      else Status_pending)"

text \<open>The two tests on \<^verbatim>\<open>order.status\<close> of lines 375 to 385.\<close>

definition order_status_tests :: "jsval \<Rightarrow> payment_session_status" where
  "order_status_tests st =
     (if st = JStr ''paid'' then Status_captured
      else if st = JStr ''attempted'' then Status_authorized
      else Status_pending)"

definition getPaymentStatus_try ::
  "runtime \<Rightarrow> service \<Rightarrow> jsval \<Rightarrow> trace \<Rightarrow> (exn + payment_session_status) \<times> trace" where
  "getPaymentStatus_try rt svc d tr =
     (if truthy (get_prop ''id'' (get_prop ''payment_details'' d)) then
        let paymentId = get_prop ''id'' (get_prop ''payment_details'' d)
        in case invoke svc (PaymentsFetch paymentId) tr of
             (Inl e, tr') \<Rightarrow> (Inl e, tr')
           | (Inr payment, tr') \<Rightarrow>
               (case get_strict rt ''status'' payment of
                  Inl e \<Rightarrow> (Inl e, tr')
                | Inr st \<Rightarrow> (Inr (payment_status_switch st), tr'))
      else if truthy (get_prop ''id'' d) then
        case invoke svc (OrdersFetch (get_prop ''id'' d)) tr of
          (Inl e, tr') \<Rightarrow> (Inl e, tr')
        | (Inr order, tr') \<Rightarrow>
            (case get_strict rt ''status'' order of
               Inl e \<Rightarrow> (Inl e, tr')
             | Inr st \<Rightarrow> (Inr (order_status_tests st), tr'))
      else (Inr Status_pending, tr))"

definition getPaymentStatus ::
  "runtime \<Rightarrow> service \<Rightarrow> payment_data \<Rightarrow> trace \<Rightarrow> (exn + payment_session_status) \<times> trace" where
  "getPaymentStatus rt svc input tr =
     (case getPaymentStatus_try rt svc (data input) tr of
        (Inr st, tr') \<Rightarrow> (Inr st, tr')
      | (Inl e, tr') \<Rightarrow>
          (case message_of rt e of
             Inl e' \<Rightarrow> (Inl e', tr')
           | Inr m \<Rightarrow>
               (case template rt ''Failed to get Razorpay payment status: '' m of
                  Inl e' \<Rightarrow> (Inl e', tr')
                | Inr line \<Rightarrow> (Inr Status_error, tr' @ [LoggerError line]))))"

subsection \<open>\<^verbatim>\<open>getWebhookActionAndData\<close> (lines 484 to 563)\<close>

text \<open>A chain of property reads \<^verbatim>\<open>v.k1.k2\<close>: the first read of undefined or null throws.\<close>

fun get_path :: "runtime \<Rightarrow> string list \<Rightarrow> jsval \<Rightarrow> exn + jsval" where
  "get_path rt [] v = Inr v"
| "get_path rt (k # ks) v =
     (case get_strict rt k v of Inl e \<Rightarrow> Inl e | Inr v' \<Rightarrow> get_path rt ks v')"

text \<open>\<^verbatim>\<open>rawData.toString()\<close>: the text of the body (a string, or a Buffer read as a
  string); a TypeError on undefined or null, and on an object whose own \<^verbatim>\<open>toString\<close>
  is no function.\<close>

definition call_toString :: "runtime \<Rightarrow> jsval \<Rightarrow> exn + string" where
  "call_toString rt v =
     (if nullish v then Inl (JsError (type_error_message rt v ''toString''))
      else if has_own ''toString'' v then Inl (JsError (not_a_function_message rt ''toString''))
      else to_string rt v)"

text \<open>
  The signature gate of lines 491 to 504. Its result is \<open>Inr True\<close> when the event goes
  on to the \<^verbatim>\<open>switch\<close>, \<open>Inr False\<close> when the method returns the failed action for an
  invalid signature, and \<open>Inl\<close> an exception.
\<close>

definition webhook_gate :: "runtime \<Rightarrow> service \<Rightarrow> webhook_payload \<Rightarrow> exn + bool" where
  "webhook_gate rt svc payload =
     (if secret_configured svc then
        case get_strict rt ''x-razorpay-signature'' (headers payload) of
          Inl e \<Rightarrow> Inl e
        | Inr signature \<Rightarrow>
            if \<not> truthy signature then Inr False
            else
              (case call_toString rt (rawData payload) of
                 Inl e \<Rightarrow> Inl e
               | Inr body \<Rightarrow> Inr (verifyWebhookSignature rt svc body signature))
      else Inr True)"

text \<open>
  The object \<^verbatim>\<open>{session_id: E.k, amount: new BigNumber(E.amount / 100)}\<close> of a case of
  the \<^verbatim>\<open>switch\<close>, for the entity \<open>E\<close> at \<^verbatim>\<open>data.payload.<which>.entity\<close> and the key
  \<open>k\<close>; the reads and the constructor may throw, in this order.
\<close>

definition event_data ::
  "runtime \<Rightarrow> jsval \<Rightarrow> string \<Rightarrow> string \<Rightarrow> exn + (string \<times> jsval) list" where
  "event_data rt d which k =
     (case get_path rt [''payload'', which, ''entity'', k] d of
        Inl e \<Rightarrow> Inl e
      | Inr session_id \<Rightarrow>
          (case get_path rt [''payload'', which, ''entity'', ''amount''] d of
             Inl e \<Rightarrow> Inl e
           | Inr a \<Rightarrow>
               (case new_BigNumber rt (div100 rt (to_number rt a)) of
                  Inl e \<Rightarrow> Inl e
                | Inr bn \<Rightarrow> Inr [(''session_id'', session_id), (''amount'', bn)])))"

text \<open>The \<^verbatim>\<open>switch (data.event)\<close> of lines 507 to 551.\<close>

definition webhook_switch :: "runtime \<Rightarrow> jsval \<Rightarrow> exn + webhook_result" where
  "webhook_switch rt d =
     (case get_strict rt ''event'' d of
        Inl e \<Rightarrow> Inl e
      | Inr ev \<Rightarrow>
          if ev = JStr ''payment.authorized'' then
            (case event_data rt d ''payment'' ''order_id'' of
               Inl e \<Rightarrow> Inl e
             | Inr kvs \<Rightarrow> Inr \<lparr>data = JObj kvs, action = Action_authorized\<rparr>)
          else if ev = JStr ''payment.captured'' then
            (case event_data rt d ''payment'' ''order_id'' of
               Inl e \<Rightarrow> Inl e
             | Inr kvs \<Rightarrow> Inr \<lparr>data = JObj kvs, action = Action_captured\<rparr>)
          else if ev = JStr ''refund.processed'' then
            (case event_data rt d ''refund'' ''payment_id'' of
               Inl e \<Rightarrow> Inl e
             | Inr kvs \<Rightarrow> Inr \<lparr>data = JObj kvs, action = Action_refunded\<rparr>)
          else if ev = JStr ''payment.failed'' then
            (case event_data rt d ''payment'' ''order_id'' of
               Inl e \<Rightarrow> Inl e
             | Inr kvs \<Rightarrow>
                 (case get_path rt [''payload'', ''payment'', ''entity'', ''error_description''] d of
                    Inl e \<Rightarrow> Inl e
                  | Inr descr \<Rightarrow>
                      Inr \<lparr>data = JObj (kvs @ [(''error'', js_or descr (JStr ''Payment failed''))]),
                           action = Action_failed\<rparr>))
          else Inr \<lparr>data = JUndefined, action = Action_not_supported\<rparr>)"

definition getWebhookActionAndData_try ::
  "runtime \<Rightarrow> service \<Rightarrow> webhook_payload \<Rightarrow> exn + webhook_result" where
  "getWebhookActionAndData_try rt svc payload =
     (case webhook_gate rt svc payload of
        Inl e \<Rightarrow> Inl e
      | Inr passed \<Rightarrow>
          if \<not> passed then
            Inr \<lparr>data = JObj [(''message'', JStr ''Invalid webhook signature'')],
                 action = Action_failed\<rparr>
          else webhook_switch rt (data payload))"

definition getWebhookActionAndData ::
  "runtime \<Rightarrow> service \<Rightarrow> webhook_payload \<Rightarrow> trace \<Rightarrow> (exn + webhook_result) \<times> trace" where
  "getWebhookActionAndData rt svc payload tr =
     (case getWebhookActionAndData_try rt svc payload of
        Inr r \<Rightarrow> (Inr r, tr)
      | Inl e \<Rightarrow>
          (case message_of rt e of
             Inl e' \<Rightarrow> (Inl e', tr)
           | Inr m \<Rightarrow>
               (case template rt ''Failed to process Razorpay webhook: '' m of
                  Inl e' \<Rightarrow> (Inl e', tr)
                | Inr line \<Rightarrow>
                    (case template rt ''Error processing webhook: '' m of
                       Inl e' \<Rightarrow> (Inl e', tr @ [LoggerError line])
                     | Inr msg \<Rightarrow>
                         (Inr \<lparr>data = JObj [(''message'', JStr msg)], action = Action_failed\<rparr>,
                          tr @ [LoggerError line])))))"

section \<open>A runtime and a gateway for concrete runs\<close>

text \<open>
  The theorems below hold for every runtime and every gateway client. To run the model
  on a concrete input, the examples use a runtime whose arithmetic is exact (the
  examples only compute with numbers that are doubles), whose HMAC is a stand-in that
  writes key and message side by side, and a client that answers every fetch with an
  authorized payment of 49900 minor units and every other call with a record of its own.
\<close>

definition example_runtime :: runtime where
  "example_runtime =
     \<lparr>hmac_sha256_hex = (\<lambda>k m. ''hmac:'' @ k @ '':'' @ m),
      round_double = Finite,
      number_repr = (\<lambda>r. ''1e+21''),
      string_to_number = (\<lambda>s. NaN),
      json_stringify = (\<lambda>v. JStr ''{}''),
      type_error_message = (\<lambda>v k. ''Cannot read properties of undefined (reading '' @ k @ '')''),
      to_primitive_error_message = ''Cannot convert object to primitive value'',
      not_a_function_message = (\<lambda>k. k @ '' is not a function''),
      new_BigNumber = (\<lambda>n. if n = NaN then Inl (JsError ''Invalid BigNumber value'')
                           else Inr (JObj [(''numeric_'', JNum n)])),
      date_now = 1700000000000\<rparr>"

definition example_client :: "trace \<Rightarrow> call \<Rightarrow> exn + jsval" where
  "example_client tr c =
     (case c of
        OrdersCreate p \<Rightarrow>
          Inr (JObj [(''id'', JStr ''order_1''), (''amount'', get_prop ''amount'' p),
                     (''status'', JStr ''created'')])
      | OrdersFetch i \<Rightarrow> Inr (JObj [(''id'', i), (''status'', JStr ''attempted'')])
      | PaymentsFetch i \<Rightarrow>
          Inr (JObj [(''id'', i), (''status'', JStr ''authorized''),
                     (''amount'', JNum (Finite 49900))])
      | PaymentsCapture i a \<Rightarrow>
          Inr (JObj [(''id'', i), (''status'', JStr ''captured''), (''amount'', a)])
      | PaymentsRefund i p \<Rightarrow>
          Inr (JObj [(''id'', JStr ''rfnd_1''), (''payment_id'', i),
                     (''amount'', get_prop ''amount'' p)]))"

definition example_service :: "string option \<Rightarrow> service" where
  "example_service secret =
     \<lparr>options = \<lparr>key_id = ''rzp_test_key'', key_secret = ''key_secret'',
                  webhook_secret = secret\<rparr>,
      client = example_client\<rparr>"

section \<open>Basic facts about values and traces\<close>

lemma nullish_simps [simp]:
  "nullish JUndefined" "nullish JNull" "\<not> nullish (JBool b)" "\<not> nullish (JNum n)"
  "\<not> nullish (JStr s)" "\<not> nullish (JObj kvs)"
  by (simp_all add: nullish_def)

lemma get_prop_nullish [simp]: "nullish v \<Longrightarrow> get_prop k v = JUndefined"
  by (auto simp: nullish_def)

lemma nullish_get_prop: "\<not> nullish (get_prop k v) \<Longrightarrow> \<not> nullish v"
  by (auto simp: nullish_def)

lemma truthy_not_nullish: "truthy v \<Longrightarrow> \<not> nullish v"
  by (auto simp: nullish_def)

lemma truthy_get_prop: "truthy (get_prop k v) \<Longrightarrow> \<not> nullish v"
  by (auto simp: nullish_def)

lemma get_strict_Inr [simp]: "\<not> nullish v \<Longrightarrow> get_strict rt k v = Inr (get_prop k v)"
  by (simp add: get_strict_def)

lemma get_strict_Inl [simp]:
  "nullish v \<Longrightarrow> get_strict rt k v = Inl (JsError (type_error_message rt v k))"
  by (simp add: get_strict_def)

lemma to_string_simps [simp]:
  "to_string rt JUndefined = Inr ''undefined''" "to_string rt JNull = Inr ''null''"
  "to_string rt (JStr s) = Inr s" "to_string rt (JNum n) = Inr (number_to_string rt n)"
  by (simp_all add: to_string_def)


lemma to_string_Inl:
  "to_string rt v = Inl e \<Longrightarrow> e = JsError (to_primitive_error_message rt) \<and> has_own ''toString'' v"
  by (cases v) (auto simp: to_string_def split: if_splits)

lemma template_JStr [simp]: "template rt prefix (JStr s) = Inr (prefix @ s)"
  by (simp add: template_def)

lemma gateway_calls_append [simp]:
  "gateway_calls (xs @ ys) = gateway_calls xs @ gateway_calls ys"
  by (induction xs rule: gateway_calls.induct) simp_all

lemma show_nat_small: "n < 10 \<Longrightarrow> show_nat n = [digit_char n]"
  by (simp add: show_nat.simps)

lemma show_nat_big: "10 \<le> n \<Longrightarrow> show_nat n = show_nat (n div 10) @ [digit_char (n mod 10)]"
  by (subst show_nat.simps) simp

lemma floor_rat_numeral: "\<lfloor>numeral a / numeral b :: rat\<rfloor> = numeral a div numeral b"
  using floor_divide_of_int_eq [of "numeral a" "numeral b", where ?'a = rat] by simp

lemmas example_defs =
  example_runtime_def example_service_def example_client_def invoke_def lookup_def
  secret_configured_def

section \<open>Printing and reading decimal digits\<close>

text \<open>
  \<^verbatim>\<open>parseInt\<close> reads back what \<^verbatim>\<open>toFixed(0)\<close> prints below \<open>10^21\<close>: the digits of a
  natural number, with or without a minus sign.
\<close>

lemma digit_char_facts:
  assumes "d < 10"
  shows "is_digit (digit_char d)" "digit_val (digit_char d) = d"
proof -
  from assms have "d \<in> {0, 1, 2, 3, 4, 5, 6, 7, 8, 9}" by auto
  then show "is_digit (digit_char d)" "digit_val (digit_char d) = d"
    by (auto simp: digit_char_def is_digit_def digit_val_def)
qed

lemma is_digit_not_special:
  assumes "is_digit c"
  shows "\<not> is_white c" "c \<noteq> CHR ''-''" "c \<noteq> CHR ''+''" "c \<noteq> CHR ''x''" "c \<noteq> CHR ''X''"
  using assms by (auto simp: is_digit_def is_white_def)

lemma show_nat_digits: "\<forall>c \<in> set (show_nat n). is_digit c"
proof (induction n rule: show_nat.induct)
  case (1 n)
  show ?case
  proof (cases "n < 10")
    case True
    then show ?thesis by (simp add: show_nat_small digit_char_facts)
  next
    case False
    then have "10 \<le> n" by simp
    moreover have "n mod 10 < 10" by simp
    ultimately show ?thesis using 1 False
      by (simp add: show_nat_big digit_char_facts)
  qed
qed

lemma show_nat_nonempty: "show_nat n \<noteq> []"
  by (subst show_nat.simps) simp

lemma digits_val_snoc: "digits_val (s @ [c]) = 10 * digits_val s + digit_val c"
  by (simp add: digits_val_def)

lemma digits_val_show_nat: "digits_val (show_nat n) = n"
proof (induction n rule: show_nat.induct)
  case (1 n)
  show ?case
  proof (cases "n < 10")
    case True
    then show ?thesis by (simp add: show_nat_small digit_char_facts digits_val_def)
  next
    case False
    then have "10 \<le> n" by simp
    moreover have "n mod 10 < 10" by simp
    ultimately show ?thesis using 1 False
      by (simp add: show_nat_big digits_val_snoc digit_char_facts)
  qed
qed

lemma parseInt_digits:
  assumes ne: "s \<noteq> []" and dig: "\<forall>c \<in> set s. is_digit c"
  shows "parseInt rt s = round_double rt (of_nat (digits_val s))"
    and "parseInt rt (CHR ''-'' # s) = round_double rt (- of_nat (digits_val s))"
proof -
  from ne obtain c cs where s: "s = c # cs" by (cases s) auto
  with dig have c: "is_digit c" by simp
  have tw: "takeWhile is_digit s = s" using dig by simp
  have nohex: "take 2 s \<noteq> ''0x''" "take 2 s \<noteq> ''0X''"
  proof -
    show "take 2 s \<noteq> ''0x''"
    proof (cases cs)
      case Nil then show ?thesis using s by simp
    next
      case (Cons c' cs')
      with dig s have "is_digit c'" by simp
      then have "c' \<noteq> CHR ''x''" by (rule is_digit_not_special)
      then show ?thesis using s Cons by simp
    qed
    show "take 2 s \<noteq> ''0X''"
    proof (cases cs)
      case Nil then show ?thesis using s by simp
    next
      case (Cons c' cs')
      with dig s have "is_digit c'" by simp
      then have "c' \<noteq> CHR ''X''" by (rule is_digit_not_special)
      then show ?thesis using s Cons by simp
    qed
  qed
  have dw: "dropWhile is_white s = s"
    using s is_digit_not_special(1) [OF c] by simp
  have sign: "c \<noteq> CHR ''-''" "c \<noteq> CHR ''+''"
    using is_digit_not_special [OF c] by simp_all
  have neg: "(case s of c # _ \<Rightarrow> c = CHR ''-'' | [] \<Rightarrow> False) = False"
    using s sign by simp
  have s1: "(case s of c # cs \<Rightarrow> if c = CHR ''-'' \<or> c = CHR ''+'' then cs else s | [] \<Rightarrow> s) = s"
    using s sign by simp
  show "parseInt rt s = round_double rt (of_nat (digits_val s))"
    unfolding parseInt_def Let_def dw neg s1
    using nohex ne by (simp add: tw)
  have w: "\<not> is_white CHR ''-''" by (simp add: is_white_def)
  show "parseInt rt (CHR ''-'' # s) = round_double rt (- of_nat (digits_val s))"
    unfolding parseInt_def Let_def
    using w nohex ne by (simp add: tw)
qed

lemma parseInt_show_nat:
  "parseInt rt (show_nat n) = round_double rt (of_nat n)"
  "parseInt rt (CHR ''-'' # show_nat n) = round_double rt (- of_nat n)"
  using parseInt_digits [OF show_nat_nonempty show_nat_digits, of rt n]
  by (simp_all add: digits_val_show_nat)

lemma minor_units_finite:
  assumes "mul100 rt a = Finite p" and "\<bar>p\<bar> < 10 ^ 21"
  shows "minor_units rt a =
           round_double rt (of_int (if p < 0 then - \<lfloor>- p + 1 / 2\<rfloor> else \<lfloor>p + 1 / 2\<rfloor>))"
proof (cases "p < 0")
  case True
  then have "0 \<le> \<lfloor>- p + 1 / 2\<rfloor>" by simp
  then have "(of_nat (nat \<lfloor>- p + 1 / 2\<rfloor>) :: rat) = of_int \<lfloor>- p + 1 / 2\<rfloor>"
    by simp
  with True assms show ?thesis
    by (simp add: minor_units_def toFixed0_def parseInt_show_nat abs_if)
next
  case False
  then have "0 \<le> \<lfloor>p + 1 / 2\<rfloor>" by simp
  then have "(of_nat (nat \<lfloor>p + 1 / 2\<rfloor>) :: rat) = of_int \<lfloor>p + 1 / 2\<rfloor>"
    by simp
  with False assms show ?thesis
    by (simp add: minor_units_def toFixed0_def parseInt_show_nat abs_if)
qed

lemma minor_units_not_finite:
  assumes "mul100 rt a \<in> {NaN, PosInfinity, NegInfinity}"
  shows "minor_units rt a = NaN"
  using assms
  by (auto simp: minor_units_def toFixed0_def number_to_string_def parseInt_def is_white_def
        is_digit_def Let_def)


section \<open>Webhooks: the signature gate (claims C1, C8, C9)\<close>

text \<open>
  When the gate of \<^verbatim>\<open>getWebhookActionAndData\<close> lets an event through to the
  \<^verbatim>\<open>switch\<close>: no webhook secret is configured, or the header carries a signature that
  matches the HMAC of the raw body.
\<close>

lemma webhook_gate_iff:
  "webhook_gate rt svc payload = Inr True \<longleftrightarrow>
     \<not> secret_configured svc \<or>
     (truthy (get_prop ''x-razorpay-signature'' (headers payload)) \<and>
      (\<exists>body. call_toString rt (rawData payload) = Inr body \<and>
         verifyWebhookSignature rt svc body
           (get_prop ''x-razorpay-signature'' (headers payload))))"
  by (cases "nullish (headers payload)")
     (auto simp: webhook_gate_def split: sum.splits)

lemma call_toString_Inl: "call_toString rt v = Inl e \<Longrightarrow> \<exists>m. e = JsError m"
  by (auto simp: call_toString_def split: if_splits dest: to_string_Inl)

lemma webhook_gate_Inl: "webhook_gate rt svc payload = Inl e \<Longrightarrow> \<exists>m. e = JsError m"
  by (cases "nullish (headers payload)")
     (auto simp: webhook_gate_def split: if_splits sum.splits dest: call_toString_Inl)

lemma webhook_failed_handler:
  "getWebhookActionAndData_try rt svc payload = Inl (JsError m) \<Longrightarrow>
   getWebhookActionAndData rt svc payload tr =
     (Inr \<lparr>data = JObj [(''message'', JStr (''Error processing webhook: '' @ m))],
           action = Action_failed\<rparr>,
      tr @ [LoggerError (''Failed to process Razorpay webhook: '' @ m)])"
  by (simp add: getWebhookActionAndData_def message_of_def)

text \<open>
  Claim C1, as amended. With no webhook secret configured (unset, or the empty string),
  \<^verbatim>\<open>verifyWebhookSignature\<close> returns false for every payload and signature. The
  method \<^verbatim>\<open>getWebhookActionAndData\<close> does not call it then: line 491 verifies only
  \<^verbatim>\<open>if (this.options_.webhook_secret)\<close>, so without a secret every event passes the
  gate and the result does not depend on the headers or on the raw body.
\<close>

theorem webhook_without_secret:
  "\<not> secret_configured svc \<Longrightarrow>
     \<not> verifyWebhookSignature rt svc body sig \<and>
     webhook_gate rt svc payload = Inr True \<and>
     getWebhookActionAndData rt svc payload tr =
       getWebhookActionAndData rt svc \<lparr>data = data payload, headers = h, rawData = r\<rparr> tr"
  by (simp add: verifyWebhookSignature_def webhook_gate_def getWebhookActionAndData_def
        getWebhookActionAndData_try_def)

theorem webhook_without_secret_witness:
  "\<not> secret_configured (example_service None) \<and>
   \<not> verifyWebhookSignature example_runtime (example_service None) ''{}'' (JStr ''abc'') \<and>
   webhook_gate example_runtime (example_service None)
     \<lparr>data = JObj [(''event'', JStr ''payment.captured'')], headers = JObj [],
      rawData = JStr ''{}''\<rparr> = Inr True \<and>
   getWebhookActionAndData example_runtime (example_service None)
     \<lparr>data = JObj [(''event'', JStr ''payment.captured'')], headers = JObj [],
      rawData = JStr ''{}''\<rparr> [] =
   getWebhookActionAndData example_runtime (example_service None)
     \<lparr>data = JObj [(''event'', JStr ''payment.captured'')],
      headers = JObj [(''x-razorpay-signature'', JStr ''abc'')],
      rawData = JStr ''forged''\<rparr> []"
proof -
  have h: "\<not> secret_configured (example_service None)"
    by (simp add: example_defs)
  from
    webhook_without_secret [OF h, where rt = example_runtime
      and payload = "\<lparr>data = JObj [(''event'', JStr ''payment.captured'')], headers = JObj [],
                      rawData = JStr ''{}''\<rparr>"
      and h = "JObj [(''x-razorpay-signature'', JStr ''abc'')]" and r = "JStr ''forged''"
      and tr = "[]" and body = "''{}''" and sig = "JStr ''abc''"]
    h
  show ?thesis by simp
qed

text \<open>
  The claim as stated fails: with no secret configured, an event that carries no
  signature at all is processed as a captured payment.
\<close>

theorem webhook_without_secret_accepts_counterexample:
  "getWebhookActionAndData example_runtime (example_service None)
     \<lparr>data = JObj [(''event'', JStr ''payment.captured''),
                   (''payload'', JObj [(''payment'', JObj [(''entity'',
                      JObj [(''order_id'', JStr ''order_1''),
                            (''amount'', JNum (Finite 49900))])])])],
      headers = JObj [], rawData = JStr ''forged''\<rparr> [] =
   (Inr \<lparr>data = JObj [(''session_id'', JStr ''order_1''),
                      (''amount'', JObj [(''numeric_'', JNum (Finite 499))])],
         action = Action_captured\<rparr>, [])"
  by (simp add: getWebhookActionAndData_def getWebhookActionAndData_try_def webhook_gate_def
        webhook_switch_def event_data_def div100_def to_number_def example_defs)

text \<open>
  Claim C8. The method verifies the signature before it looks at the event type
  (lines 491 to 504). An event that passes this gate (no webhook secret is configured,
  or the signature matches the raw body), whose event object is there and whose type is
  none of the four recognized ones, is answered with the action \<^verbatim>\<open>not_supported\<close>,
  with no data, and nothing is logged. An event that fails the gate is answered with
  the action \<^verbatim>\<open>failed\<close> and the message ``Invalid webhook signature'', whatever its
  type. In no case does an event of an unrecognized type make the method throw: the
  result is the action \<^verbatim>\<open>not_supported\<close> or the action \<^verbatim>\<open>failed\<close>.
\<close>

theorem unrecognized_event:
  assumes "get_prop ''event'' (data payload) \<notin>
           set (map JStr [''payment.authorized'', ''payment.captured'', ''refund.processed'', ''payment.failed''])"
  shows "(webhook_gate rt svc payload = Inr True \<and> \<not> nullish (data payload) \<longrightarrow>
            getWebhookActionAndData rt svc payload tr =
              (Inr \<lparr>data = JUndefined, action = Action_not_supported\<rparr>, tr)) \<and>
         (webhook_gate rt svc payload = Inr False \<longrightarrow>
            getWebhookActionAndData rt svc payload tr =
              (Inr \<lparr>data = JObj [(''message'', JStr ''Invalid webhook signature'')],
                    action = Action_failed\<rparr>, tr)) \<and>
         (\<exists>r tr'. getWebhookActionAndData rt svc payload tr = (Inr r, tr') \<and>
            (action r = Action_not_supported \<or> action r = Action_failed))"
proof (intro conjI impI)
  assume "webhook_gate rt svc payload = Inr True \<and> \<not> nullish (data payload)"
  with assms show "getWebhookActionAndData rt svc payload tr =
      (Inr \<lparr>data = JUndefined, action = Action_not_supported\<rparr>, tr)"
    by (auto simp: getWebhookActionAndData_def getWebhookActionAndData_try_def webhook_switch_def)
next
  assume "webhook_gate rt svc payload = Inr False"
  then show "getWebhookActionAndData rt svc payload tr =
      (Inr \<lparr>data = JObj [(''message'', JStr ''Invalid webhook signature'')],
            action = Action_failed\<rparr>, tr)"
    by (simp add: getWebhookActionAndData_def getWebhookActionAndData_try_def)
next
  show "\<exists>r tr'. getWebhookActionAndData rt svc payload tr = (Inr r, tr') \<and>
            (action r = Action_not_supported \<or> action r = Action_failed)"
  proof (cases "webhook_gate rt svc payload")
    case (Inl e)
    then obtain m where "e = JsError m" by (blast dest: webhook_gate_Inl)
    with Inl have "getWebhookActionAndData_try rt svc payload = Inl (JsError m)"
      by (simp add: getWebhookActionAndData_try_def)
    from webhook_failed_handler [OF this] show ?thesis by simp
  next
    case (Inr passed)
    show ?thesis
    proof (cases passed)
      case False
      with Inr show ?thesis
        by (simp add: getWebhookActionAndData_def getWebhookActionAndData_try_def)
    next
      case True
      show ?thesis
      proof (cases "nullish (data payload)")
        case n: True
        with Inr True
        have "getWebhookActionAndData_try rt svc payload =
                Inl (JsError (type_error_message rt (data payload) ''event''))"
          by (simp add: getWebhookActionAndData_try_def webhook_switch_def)
        from webhook_failed_handler [OF this] show ?thesis by simp
      next
        case n: False
        with Inr True assms show ?thesis
          by (auto simp: getWebhookActionAndData_def getWebhookActionAndData_try_def
                webhook_switch_def)
      qed
    qed
  qed
qed

theorem unrecognized_event_witness:
  "get_prop ''event'' (JObj [(''event'', JStr ''order.paid'')]) \<notin>
     set (map JStr [''payment.authorized'', ''payment.captured'', ''refund.processed'', ''payment.failed'']) \<and>
   webhook_gate example_runtime (example_service (Some ''whsec''))
     \<lparr>data = JObj [(''event'', JStr ''order.paid'')],
      headers = JObj [(''x-razorpay-signature'', JStr ''hmac:whsec:{}'')],
      rawData = JStr ''{}''\<rparr> = Inr True \<and>
   getWebhookActionAndData example_runtime (example_service (Some ''whsec''))
     \<lparr>data = JObj [(''event'', JStr ''order.paid'')],
      headers = JObj [(''x-razorpay-signature'', JStr ''hmac:whsec:{}'')],
      rawData = JStr ''{}''\<rparr> [] =
   (Inr \<lparr>data = JUndefined, action = Action_not_supported\<rparr>, []) \<and>
   webhook_gate example_runtime (example_service (Some ''whsec''))
     \<lparr>data = JObj [(''event'', JStr ''order.paid'')], headers = JObj [],
      rawData = JStr ''{}''\<rparr> = Inr False \<and>
   getWebhookActionAndData example_runtime (example_service (Some ''whsec''))
     \<lparr>data = JObj [(''event'', JStr ''order.paid'')], headers = JObj [],
      rawData = JStr ''{}''\<rparr> [] =
   (Inr \<lparr>data = JObj [(''message'', JStr ''Invalid webhook signature'')],
         action = Action_failed\<rparr>, [])"
proof -
  let ?p = "\<lparr>data = JObj [(''event'', JStr ''order.paid'')],
      headers = JObj [(''x-razorpay-signature'', JStr ''hmac:whsec:{}'')],
      rawData = JStr ''{}''\<rparr>"
  let ?q = "\<lparr>data = JObj [(''event'', JStr ''order.paid'')], headers = JObj [],
      rawData = JStr ''{}''\<rparr>"
  have e: "get_prop ''event'' (data ?p) \<notin>
     set (map JStr [''payment.authorized'', ''payment.captured'', ''refund.processed'', ''payment.failed''])"
    by (simp add: lookup_def)
  have e': "get_prop ''event'' (data ?q) \<notin>
     set (map JStr [''payment.authorized'', ''payment.captured'', ''refund.processed'', ''payment.failed''])"
    by (simp add: lookup_def)
  have g: "webhook_gate example_runtime (example_service (Some ''whsec'')) ?p = Inr True"
    by (simp add: webhook_gate_def call_toString_def has_own_def verifyWebhookSignature_def
          example_defs)
  have g': "webhook_gate example_runtime (example_service (Some ''whsec'')) ?q = Inr False"
    by (simp add: webhook_gate_def example_defs)
  from
    unrecognized_event [OF e, of example_runtime "example_service (Some ''whsec'')" "[]"]
    unrecognized_event [OF e', of example_runtime "example_service (Some ''whsec'')" "[]"]
    e g g'
  show ?thesis by simp
qed

lemma entity_path:
  assumes "\<not> nullish (get_prop ''entity'' (get_prop which (get_prop ''payload'' d)))"
  shows "get_path rt [''payload'', which, ''entity'', k] d =
         Inr (get_prop k (get_prop ''entity'' (get_prop which (get_prop ''payload'' d))))"
proof -
  from assms have 1: "\<not> nullish (get_prop which (get_prop ''payload'' d))"
    by (rule nullish_get_prop)
  then have 2: "\<not> nullish (get_prop ''payload'' d)" by (rule nullish_get_prop)
  then have 3: "\<not> nullish d" by (rule nullish_get_prop)
  from assms 1 2 3 show ?thesis by simp
qed

lemma event_data_ok:
  assumes "\<not> nullish (get_prop ''entity'' (get_prop which (get_prop ''payload'' d)))"
    and "new_BigNumber rt (div100 rt (to_number rt
           (get_prop ''amount'' (get_prop ''entity'' (get_prop which (get_prop ''payload'' d)))))) = Inr bn"
  shows "event_data rt d which k =
         Inr [(''session_id'', get_prop k (get_prop ''entity'' (get_prop which (get_prop ''payload'' d)))),
              (''amount'', bn)]"
  unfolding event_data_def entity_path [OF assms(1)] using assms(2) by simp

lemma switch_payment_event:
  assumes ent: "\<not> nullish (get_prop ''entity'' (get_prop ''payment'' (get_prop ''payload'' d)))"
    and bn: "new_BigNumber rt (div100 rt (to_number rt
           (get_prop ''amount'' (get_prop ''entity'' (get_prop ''payment'' (get_prop ''payload'' d)))))) = Inr bn"
    and ev: "get_prop ''event'' d \<in> set (map JStr [''payment.authorized'', ''payment.captured'', ''payment.failed''])"
  shows "\<exists>r. webhook_switch rt d = Inr r \<and>
           get_prop ''session_id'' (data r) =
             get_prop ''order_id'' (get_prop ''entity'' (get_prop ''payment'' (get_prop ''payload'' d)))"
proof -
  from ent have d: "\<not> nullish d"
    by (blast dest: nullish_get_prop)
  show ?thesis
    unfolding webhook_switch_def
    using d ev
    by (auto simp: event_data_ok [OF ent bn] entity_path [OF ent] lookup_def
             simp del: get_path.simps)
qed

lemma switch_refund_event:
  assumes ent: "\<not> nullish (get_prop ''entity'' (get_prop ''refund'' (get_prop ''payload'' d)))"
    and bn: "new_BigNumber rt (div100 rt (to_number rt
           (get_prop ''amount'' (get_prop ''entity'' (get_prop ''refund'' (get_prop ''payload'' d)))))) = Inr bn"
    and ev: "get_prop ''event'' d = JStr ''refund.processed''"
  shows "\<exists>r. webhook_switch rt d = Inr r \<and>
           get_prop ''session_id'' (data r) =
             get_prop ''payment_id'' (get_prop ''entity'' (get_prop ''refund'' (get_prop ''payload'' d)))"
proof -
  from ent have d: "\<not> nullish d"
    by (blast dest: nullish_get_prop)
  show ?thesis
    unfolding webhook_switch_def
    using d ev
    by (auto simp: event_data_ok [OF ent bn] lookup_def simp del: get_path.simps)
qed

lemma gate_passed:
  "webhook_gate rt svc payload = Inr True \<Longrightarrow> webhook_switch rt (data payload) = Inr r \<Longrightarrow>
   getWebhookActionAndData rt svc payload tr = (Inr r, tr)"
  by (simp add: getWebhookActionAndData_def getWebhookActionAndData_try_def)

text \<open>
  Claim C9. For an event that passes the gate, whose entity is there and whose amount
  \<^verbatim>\<open>BigNumber\<close> accepts: the \<^verbatim>\<open>session_id\<close> of the result is the \<^verbatim>\<open>order_id\<close> of
  the payment entity for \<^verbatim>\<open>payment.authorized\<close>, \<^verbatim>\<open>payment.captured\<close> and
  \<^verbatim>\<open>payment.failed\<close>, and the \<^verbatim>\<open>payment_id\<close> of the refund entity for
  \<^verbatim>\<open>refund.processed\<close>.
\<close>

theorem webhook_session_reference:
  assumes gate: "webhook_gate rt svc payload = Inr True"
  shows "(get_prop ''event'' (data payload) \<in>
            set (map JStr [''payment.authorized'', ''payment.captured'', ''payment.failed'']) \<and>
          \<not> nullish (get_prop ''entity'' (get_prop ''payment'' (get_prop ''payload'' (data payload)))) \<and>
          new_BigNumber rt (div100 rt (to_number rt (get_prop ''amount''
            (get_prop ''entity'' (get_prop ''payment'' (get_prop ''payload'' (data payload))))))) = Inr bn
          \<longrightarrow> (\<exists>r. getWebhookActionAndData rt svc payload tr = (Inr r, tr) \<and>
                 get_prop ''session_id'' (data r) =
                   get_prop ''order_id''
                     (get_prop ''entity'' (get_prop ''payment'' (get_prop ''payload'' (data payload)))))) \<and>
         (get_prop ''event'' (data payload) = JStr ''refund.processed'' \<and>
          \<not> nullish (get_prop ''entity'' (get_prop ''refund'' (get_prop ''payload'' (data payload)))) \<and>
          new_BigNumber rt (div100 rt (to_number rt (get_prop ''amount''
            (get_prop ''entity'' (get_prop ''refund'' (get_prop ''payload'' (data payload))))))) = Inr bn
          \<longrightarrow> (\<exists>r. getWebhookActionAndData rt svc payload tr = (Inr r, tr) \<and>
                 get_prop ''session_id'' (data r) =
                   get_prop ''payment_id''
                     (get_prop ''entity'' (get_prop ''refund'' (get_prop ''payload'' (data payload))))))"
proof (intro conjI impI)
  assume a: "get_prop ''event'' (data payload) \<in>
            set (map JStr [''payment.authorized'', ''payment.captured'', ''payment.failed'']) \<and>
          \<not> nullish (get_prop ''entity'' (get_prop ''payment'' (get_prop ''payload'' (data payload)))) \<and>
          new_BigNumber rt (div100 rt (to_number rt (get_prop ''amount''
            (get_prop ''entity'' (get_prop ''payment'' (get_prop ''payload'' (data payload))))))) = Inr bn"
  then obtain r where "webhook_switch rt (data payload) = Inr r"
    and "get_prop ''session_id'' (data r) =
           get_prop ''order_id'' (get_prop ''entity'' (get_prop ''payment'' (get_prop ''payload'' (data payload))))"
    using switch_payment_event [of "data payload" rt bn] by blast
  with gate_passed [OF gate]
  show "\<exists>r. getWebhookActionAndData rt svc payload tr = (Inr r, tr) \<and>
                 get_prop ''session_id'' (data r) =
                   get_prop ''order_id''
                     (get_prop ''entity'' (get_prop ''payment'' (get_prop ''payload'' (data payload))))"
    by blast
next
  assume a: "get_prop ''event'' (data payload) = JStr ''refund.processed'' \<and>
          \<not> nullish (get_prop ''entity'' (get_prop ''refund'' (get_prop ''payload'' (data payload)))) \<and>
          new_BigNumber rt (div100 rt (to_number rt (get_prop ''amount''
            (get_prop ''entity'' (get_prop ''refund'' (get_prop ''payload'' (data payload))))))) = Inr bn"
  then obtain r where "webhook_switch rt (data payload) = Inr r"
    and "get_prop ''session_id'' (data r) =
           get_prop ''payment_id'' (get_prop ''entity'' (get_prop ''refund'' (get_prop ''payload'' (data payload))))"
    using switch_refund_event [of "data payload" rt bn] by blast
  with gate_passed [OF gate]
  show "\<exists>r. getWebhookActionAndData rt svc payload tr = (Inr r, tr) \<and>
                 get_prop ''session_id'' (data r) =
                   get_prop ''payment_id''
                     (get_prop ''entity'' (get_prop ''refund'' (get_prop ''payload'' (data payload))))"
    by blast
qed

theorem webhook_session_reference_witness:
  "webhook_gate example_runtime (example_service None)
     \<lparr>data = JObj [(''event'', JStr ''payment.failed''),
                   (''payload'', JObj [(''payment'', JObj [(''entity'',
                      JObj [(''id'', JStr ''pay_1''), (''order_id'', JStr ''order_1''),
                            (''amount'', JNum (Finite 49900))])])])],
      headers = JObj [], rawData = JStr ''{}''\<rparr> = Inr True \<and>
   (\<exists>r. getWebhookActionAndData example_runtime (example_service None)
     \<lparr>data = JObj [(''event'', JStr ''payment.failed''),
                   (''payload'', JObj [(''payment'', JObj [(''entity'',
                      JObj [(''id'', JStr ''pay_1''), (''order_id'', JStr ''order_1''),
                            (''amount'', JNum (Finite 49900))])])])],
      headers = JObj [], rawData = JStr ''{}''\<rparr> [] = (Inr r, []) \<and>
      get_prop ''session_id'' (data r) = JStr ''order_1'') \<and>
   (\<exists>r. getWebhookActionAndData example_runtime (example_service None)
     \<lparr>data = JObj [(''event'', JStr ''refund.processed''),
                   (''payload'', JObj [(''refund'', JObj [(''entity'',
                      JObj [(''id'', JStr ''rfnd_1''), (''payment_id'', JStr ''pay_1''),
                            (''amount'', JNum (Finite 49900))])])])],
      headers = JObj [], rawData = JStr ''{}''\<rparr> [] = (Inr r, []) \<and>
      get_prop ''session_id'' (data r) = JStr ''pay_1'')"
proof -
  let ?p1 = "\<lparr>data = JObj [(''event'', JStr ''payment.failed''),
                   (''payload'', JObj [(''payment'', JObj [(''entity'',
                      JObj [(''id'', JStr ''pay_1''), (''order_id'', JStr ''order_1''),
                            (''amount'', JNum (Finite 49900))])])])],
      headers = JObj [], rawData = JStr ''{}''\<rparr>"
  let ?p2 = "\<lparr>data = JObj [(''event'', JStr ''refund.processed''),
                   (''payload'', JObj [(''refund'', JObj [(''entity'',
                      JObj [(''id'', JStr ''rfnd_1''), (''payment_id'', JStr ''pay_1''),
                            (''amount'', JNum (Finite 49900))])])])],
      headers = JObj [], rawData = JStr ''{}''\<rparr>"
  let ?bn = "JObj [(''numeric_'', JNum (Finite 499))]"
  have g1: "webhook_gate example_runtime (example_service None) ?p1 = Inr True"
    by (simp add: webhook_gate_def example_defs)
  have g2: "webhook_gate example_runtime (example_service None) ?p2 = Inr True"
    by (simp add: webhook_gate_def example_defs)
  have 1: "\<exists>r. getWebhookActionAndData example_runtime (example_service None) ?p1 [] = (Inr r, []) \<and>
      get_prop ''session_id'' (data r) = JStr ''order_1''"
    using webhook_session_reference [OF g1, where bn = ?bn and tr = "[]"]
    by (simp add: lookup_def example_runtime_def div100_def to_number_def)
  have 2: "\<exists>r. getWebhookActionAndData example_runtime (example_service None) ?p2 [] = (Inr r, []) \<and>
      get_prop ''session_id'' (data r) = JStr ''pay_1''"
    using webhook_session_reference [OF g2, where bn = ?bn and tr = "[]"]
    by (simp add: lookup_def example_runtime_def div100_def to_number_def)
  from g1 1 2 show ?thesis by blast
qed

section \<open>\<^verbatim>\<open>verifySignature\<close> (claim C2)\<close>

text \<open>
  What \<^verbatim>\<open>verifySignature\<close> computes: it holds exactly when the signature is the
  string that the HMAC of the payload under the key secret prints in hex, and
  \<^verbatim>\<open>authorizePayment\<close> applies it to \<^verbatim>\<open>`${orderId}|${paymentId}`\<close>. It is a total
  function: no input makes it throw (the template literal that builds its payload can
  throw, before it is called). The comparison is the \<^verbatim>\<open>===\<close> of line 572, which the
  model reads as equality; how long it runs is not part of the model.
\<close>

lemma verifySignature_iff:
  "verifySignature rt svc payload signature \<longleftrightarrow>
     signature = JStr (hmac_sha256_hex rt (key_secret (options svc)) payload)"
  by (auto simp: verifySignature_def)

lemma authorize_valid_signature:
  assumes "truthy (get_prop ''razorpay_payment_id'' d)"
    and "to_string rt (get_prop ''razorpay_order_id'' d) = Inr orderText"
    and "to_string rt (get_prop ''razorpay_payment_id'' d) = Inr paymentText"
    and "get_prop ''razorpay_signature'' d =
         JStr (hmac_sha256_hex rt (key_secret (options svc)) (orderText @ ''|'' @ paymentText))"
    and "hmac_sha256_hex rt (key_secret (options svc)) (orderText @ ''|'' @ paymentText) \<noteq> []"
    and "client svc tr (PaymentsFetch (get_prop ''razorpay_payment_id'' d)) = Inr payment"
    and "\<not> nullish payment"
  shows "authorizePayment rt svc \<lparr>data = d\<rparr> tr =
           (Inr \<lparr>data = JObj (set_prop ''payment_details'' payment (spread d)),
                 status = (if get_prop ''status'' payment = JStr ''captured'' then Status_captured
                           else if get_prop ''status'' payment = JStr ''authorized'' then Status_authorized
                           else Status_pending)\<rparr>,
            tr @ [GatewayCall (PaymentsFetch (get_prop ''razorpay_payment_id'' d))])"
  using assms
  by (auto simp: authorizePayment_def authorizePayment_try_def verifySignature_def invoke_def)

section \<open>\<^verbatim>\<open>authorizePayment\<close> (claims C3 and C10)\<close>





text \<open>
  Claim C10. When the session data lacks a truthy \<^verbatim>\<open>razorpay_payment_id\<close> or a truthy
  \<^verbatim>\<open>razorpay_signature\<close>, \<^verbatim>\<open>authorizePayment\<close> returns the status \<^verbatim>\<open>pending\<close> with
  the data as it came, whatever the HMAC function and the gateway client are, and leaves
  the trace as it was: no verification, no gateway call.
\<close>

theorem authorize_without_verification_data:
  assumes "\<not> truthy (get_prop ''razorpay_payment_id'' (data input)) \<or>
           \<not> truthy (get_prop ''razorpay_signature'' (data input))"
  shows "authorizePayment rt svc input tr =
           (Inr \<lparr>data = data input, status = Status_pending\<rparr>, tr)"
  using assms by (auto simp: authorizePayment_def authorizePayment_try_def)

theorem authorize_without_verification_data_witness:
  "\<not> truthy (get_prop ''razorpay_signature''
       (data \<lparr>data = JObj [(''id'', JStr ''order_1''), (''razorpay_payment_id'', JStr ''pay_1'')]\<rparr>)) \<and>
   authorizePayment example_runtime (example_service None)
     \<lparr>data = JObj [(''id'', JStr ''order_1''), (''razorpay_payment_id'', JStr ''pay_1'')]\<rparr> [] =
     (Inr \<lparr>data = JObj [(''id'', JStr ''order_1''), (''razorpay_payment_id'', JStr ''pay_1'')],
           status = Status_pending\<rparr>, [])"
proof -
  let ?i = "\<lparr>data = JObj [(''id'', JStr ''order_1''), (''razorpay_payment_id'', JStr ''pay_1'')]\<rparr>"
  have h: "\<not> truthy (get_prop ''razorpay_signature'' (data ?i))"
    by (simp add: lookup_def)
  then have "\<not> truthy (get_prop ''razorpay_payment_id'' (data ?i)) \<or>
             \<not> truthy (get_prop ''razorpay_signature'' (data ?i))"
    by blast
  from authorize_without_verification_data [OF this, of example_runtime "example_service None" "[]"] h
  show ?thesis by simp
qed

section \<open>\<^verbatim>\<open>getPaymentStatus\<close> (claim C4)\<close>

text \<open>
  Claim C4. With a payment id in the session data and a payment record from the
  gateway, the status is \<^verbatim>\<open>authorized\<close> for the gateway status authorized,
  \<^verbatim>\<open>captured\<close> for captured, \<^verbatim>\<open>error\<close> for failed, and \<^verbatim>\<open>pending\<close> for created and
  for every other value. With only an order id and an order record, it is \<^verbatim>\<open>captured\<close>
  for the order status paid, \<^verbatim>\<open>authorized\<close> for attempted, and \<^verbatim>\<open>pending\<close> for
  created and for every other value. With neither id it is \<^verbatim>\<open>pending\<close>, and the
  gateway is not called. In each case the method returns; it does not throw.
\<close>

theorem getPaymentStatus_table:
  "(truthy (get_prop ''id'' (get_prop ''payment_details'' d)) \<and>
    client svc tr (PaymentsFetch (get_prop ''id'' (get_prop ''payment_details'' d))) = Inr payment \<and>
    \<not> nullish payment \<longrightarrow>
      getPaymentStatus rt svc \<lparr>data = d\<rparr> tr =
        (Inr (if get_prop ''status'' payment = JStr ''authorized'' then Status_authorized
              else if get_prop ''status'' payment = JStr ''captured'' then Status_captured
              else if get_prop ''status'' payment = JStr ''failed'' then Status_error
              else Status_pending),
         tr @ [GatewayCall (PaymentsFetch (get_prop ''id'' (get_prop ''payment_details'' d)))])) \<and>
   (\<not> truthy (get_prop ''id'' (get_prop ''payment_details'' d)) \<and> truthy (get_prop ''id'' d) \<and>
    client svc tr (OrdersFetch (get_prop ''id'' d)) = Inr order \<and> \<not> nullish order \<longrightarrow>
      getPaymentStatus rt svc \<lparr>data = d\<rparr> tr =
        (Inr (if get_prop ''status'' order = JStr ''paid'' then Status_captured
              else if get_prop ''status'' order = JStr ''attempted'' then Status_authorized
              else Status_pending),
         tr @ [GatewayCall (OrdersFetch (get_prop ''id'' d))])) \<and>
   (\<not> truthy (get_prop ''id'' (get_prop ''payment_details'' d)) \<and> \<not> truthy (get_prop ''id'' d) \<longrightarrow>
      getPaymentStatus rt svc \<lparr>data = d\<rparr> tr = (Inr Status_pending, tr))"
  by (auto simp: getPaymentStatus_def getPaymentStatus_try_def invoke_def
        payment_status_switch_def order_status_tests_def)

theorem getPaymentStatus_table_witness:
  "getPaymentStatus example_runtime
     \<lparr>options = options (example_service None),
      client = (\<lambda>tr c. Inr (JObj [(''status'', JStr ''refunded'')]))\<rparr>
     \<lparr>data = JObj [(''payment_details'', JObj [(''id'', JStr ''pay_1'')])]\<rparr> [] =
     (Inr Status_pending, [GatewayCall (PaymentsFetch (JStr ''pay_1''))]) \<and>
   getPaymentStatus example_runtime (example_service None)
     \<lparr>data = JObj [(''id'', JStr ''order_1'')]\<rparr> [] =
     (Inr Status_authorized, [GatewayCall (OrdersFetch (JStr ''order_1''))]) \<and>
   getPaymentStatus example_runtime (example_service None) \<lparr>data = JObj []\<rparr> [] =
     (Inr Status_pending, [])"
proof -
  let ?svc = "\<lparr>options = options (example_service None),
      client = (\<lambda>tr c. Inr (JObj [(''status'', JStr ''refunded'')]))\<rparr>"
  have 1: "getPaymentStatus example_runtime ?svc
     \<lparr>data = JObj [(''payment_details'', JObj [(''id'', JStr ''pay_1'')])]\<rparr> [] =
     (Inr Status_pending, [GatewayCall (PaymentsFetch (JStr ''pay_1''))])"
    using getPaymentStatus_table [where d = "JObj [(''payment_details'', JObj [(''id'', JStr ''pay_1'')])]"
        and svc = ?svc and tr = "[]" and payment = "JObj [(''status'', JStr ''refunded'')]"
        and rt = example_runtime]
    by (simp add: lookup_def)
  have 2: "getPaymentStatus example_runtime (example_service None)
     \<lparr>data = JObj [(''id'', JStr ''order_1'')]\<rparr> [] =
     (Inr Status_authorized, [GatewayCall (OrdersFetch (JStr ''order_1''))])"
    using getPaymentStatus_table [where d = "JObj [(''id'', JStr ''order_1'')]"
        and svc = "example_service None" and tr = "[]"
        and order = "JObj [(''id'', JStr ''order_1''), (''status'', JStr ''attempted'')]"
        and rt = example_runtime]
    by (simp add: example_defs)
  have 3: "getPaymentStatus example_runtime (example_service None) \<lparr>data = JObj []\<rparr> [] =
     (Inr Status_pending, [])"
    using getPaymentStatus_table [where d = "JObj []" and svc = "example_service None"
        and tr = "[]" and rt = example_runtime]
    by (simp add: lookup_def)
  from 1 2 3 show ?thesis by blast
qed

section \<open>\<^verbatim>\<open>capturePayment\<close> (claim C6)\<close>

text \<open>
  Claim C6. When the session data has no payment record with a truthy id,
  \<^verbatim>\<open>capturePayment\<close> throws before it calls the gateway: the \<^verbatim>\<open>INVALID_DATA\<close> error of
  line 224 is thrown inside the \<^verbatim>\<open>try\<close>, so the caller receives what the handler of
  line 244 makes of it, a MedusaError of type \<^verbatim>\<open>UNEXPECTED_STATE\<close> whose message ends
  in ``Payment ID is required to capture payment'', after one line in the log.
\<close>

theorem capture_without_payment:
  assumes "\<not> truthy (get_prop ''id'' (get_prop ''payment_details'' (data input)))"
  shows "capturePayment rt svc input tr =
           (Inl (MedusaError UNEXPECTED_STATE
                   ''Failed to capture Razorpay payment: Payment ID is required to capture payment''),
            tr @ [LoggerError
                   ''Failed to capture Razorpay payment: Payment ID is required to capture payment'']) \<and>
         gateway_calls (snd (capturePayment rt svc input tr)) = gateway_calls tr"
  using assms
  by (simp add: capturePayment_def capturePayment_try_def catch_rethrow_def message_of_def)

theorem capture_without_payment_witness:
  "\<not> truthy (get_prop ''id'' (get_prop ''payment_details'' (data \<lparr>data = JObj [(''id'', JStr ''order_1'')]\<rparr>))) \<and>
   capturePayment example_runtime (example_service None) \<lparr>data = JObj [(''id'', JStr ''order_1'')]\<rparr> [] =
     (Inl (MedusaError UNEXPECTED_STATE
             ''Failed to capture Razorpay payment: Payment ID is required to capture payment''),
      [LoggerError ''Failed to capture Razorpay payment: Payment ID is required to capture payment''])"
proof -
  have h: "\<not> truthy (get_prop ''id'' (get_prop ''payment_details''
              (data \<lparr>data = JObj [(''id'', JStr ''order_1'')]\<rparr>)))"
    by (simp add: lookup_def)
  from capture_without_payment [OF h, of example_runtime "example_service None" "[]"] h
  show ?thesis by simp
qed

section \<open>\<^verbatim>\<open>cancelPayment\<close> (claim C7)\<close>

text \<open>
  Claim C7. When the attached payment has a truthy id and the status authorized, the
  first thing \<^verbatim>\<open>cancelPayment\<close> does is a refund call for that payment with the
  payment's own amount; when the gateway accepts it, the payment is fetched again and
  returned as the new \<^verbatim>\<open>payment_details\<close>. On every other session data the result is
  the data as it came and the trace is as it was.
\<close>

theorem cancel_refunds_authorized:
  "(truthy (get_prop ''id'' (get_prop ''payment_details'' d)) \<and>
    get_prop ''status'' (get_prop ''payment_details'' d) = JStr ''authorized'' \<and>
    refundCall = PaymentsRefund (get_prop ''id'' (get_prop ''payment_details'' d))
                   (JObj [(''amount'', get_prop ''amount'' (get_prop ''payment_details'' d)),
                          (''notes'', JObj [(''cancellation_reason'',
                                             JStr ''Payment cancelled by merchant'')])]) \<and>
    fetchCall = PaymentsFetch (get_prop ''id'' (get_prop ''payment_details'' d))
    \<longrightarrow>
      (\<exists>res rest. cancelPayment rt svc \<lparr>data = d\<rparr> tr = (res, tr @ GatewayCall refundCall # rest)) \<and>
      (client svc tr refundCall = Inr refund \<longrightarrow>
         (\<exists>res rest. cancelPayment rt svc \<lparr>data = d\<rparr> tr =
            (res, tr @ GatewayCall refundCall # GatewayCall fetchCall # rest))) \<and>
      (client svc tr refundCall = Inr refund \<and>
       client svc (tr @ [GatewayCall refundCall]) fetchCall = Inr updatedPayment \<longrightarrow>
         cancelPayment rt svc \<lparr>data = d\<rparr> tr =
           (Inr \<lparr>data = JObj (set_prop ''payment_details'' updatedPayment (spread d))\<rparr>,
            tr @ [GatewayCall refundCall, GatewayCall fetchCall]))) \<and>
   (\<not> (truthy (get_prop ''id'' (get_prop ''payment_details'' d)) \<and>
       get_prop ''status'' (get_prop ''payment_details'' d) = JStr ''authorized'') \<longrightarrow>
      cancelPayment rt svc \<lparr>data = d\<rparr> tr = (Inr \<lparr>data = d\<rparr>, tr))"
  by (auto simp: cancelPayment_def cancelPayment_try_def invoke_def catch_rethrow_def Let_def
        split: sum.splits)

theorem cancel_refunds_authorized_witness:
  "cancelPayment example_runtime (example_service None)
     \<lparr>data = JObj [(''id'', JStr ''order_1''),
                   (''payment_details'', JObj [(''id'', JStr ''pay_1''), (''status'', JStr ''authorized''),
                                               (''amount'', JNum (Finite 49900))])]\<rparr> [] =
     (Inr \<lparr>data = JObj [(''id'', JStr ''order_1''),
                        (''payment_details'', JObj [(''id'', JStr ''pay_1''), (''status'', JStr ''authorized''),
                                                    (''amount'', JNum (Finite 49900))])]\<rparr>,
      [GatewayCall (PaymentsRefund (JStr ''pay_1'')
         (JObj [(''amount'', JNum (Finite 49900)),
                (''notes'', JObj [(''cancellation_reason'', JStr ''Payment cancelled by merchant'')])])),
       GatewayCall (PaymentsFetch (JStr ''pay_1''))]) \<and>
   cancelPayment example_runtime (example_service None)
     \<lparr>data = JObj [(''payment_details'', JObj [(''id'', JStr ''pay_1''), (''status'', JStr ''captured'')])]\<rparr> [] =
     (Inr \<lparr>data = JObj [(''payment_details'', JObj [(''id'', JStr ''pay_1''), (''status'', JStr ''captured'')])]\<rparr>, [])"
proof -
  let ?d = "JObj [(''id'', JStr ''order_1''),
                   (''payment_details'', JObj [(''id'', JStr ''pay_1''), (''status'', JStr ''authorized''),
                                               (''amount'', JNum (Finite 49900))])]"
  let ?r = "PaymentsRefund (JStr ''pay_1'')
         (JObj [(''amount'', JNum (Finite 49900)),
                (''notes'', JObj [(''cancellation_reason'', JStr ''Payment cancelled by merchant'')])])"
  let ?p = "JObj [(''id'', JStr ''pay_1''), (''status'', JStr ''authorized''),
                     (''amount'', JNum (Finite 49900))]"
  have 1: "cancelPayment example_runtime (example_service None) \<lparr>data = ?d\<rparr> [] =
     (Inr \<lparr>data = ?d\<rparr>, [GatewayCall ?r, GatewayCall (PaymentsFetch (JStr ''pay_1''))])"
    using cancel_refunds_authorized [where d = ?d and refundCall = ?r
        and fetchCall = "PaymentsFetch (JStr ''pay_1'')" and rt = example_runtime
        and svc = "example_service None" and tr = "[]"
        and refund = "JObj [(''id'', JStr ''rfnd_1''), (''payment_id'', JStr ''pay_1''),
                            (''amount'', JNum (Finite 49900))]"
        and updatedPayment = ?p]
    by (simp add: example_defs)
  let ?e = "JObj [(''payment_details'', JObj [(''id'', JStr ''pay_1''), (''status'', JStr ''captured'')])]"
  have 2: "cancelPayment example_runtime (example_service None) \<lparr>data = ?e\<rparr> [] = (Inr \<lparr>data = ?e\<rparr>, [])"
    using cancel_refunds_authorized [where d = ?e and rt = example_runtime
        and svc = "example_service None" and tr = "[]"]
    by (simp add: lookup_def)
  from 1 2 show ?thesis by blast
qed

section \<open>Minor-unit amounts in \<^verbatim>\<open>initiatePayment\<close> and \<^verbatim>\<open>refundPayment\<close> (claim C5)\<close>

lemma initiate_calls:
  "gateway_calls (snd (initiatePayment rt svc input tr)) =
     gateway_calls tr @
     [OrdersCreate (JObj [(''amount'', JNum (minor_units rt (amount input))),
                          (''currency'', JStr (toUpperCase (currency_code input))),
                          (''receipt'', JStr (''medusa_'' @ show_nat (date_now rt))),
                          (''notes'', JObj [(''medusa_payment_provider'', JStr ''razorpay'')])])]"
  by (simp add: initiatePayment_def initiatePayment_try_def invoke_def Let_def get_strict_def
        split: sum.splits)

lemma refund_calls:
  "truthy (get_prop ''id'' (get_prop ''payment_details'' (data input))) \<Longrightarrow>
   gateway_calls (snd (refundPayment rt svc input tr)) =
     gateway_calls tr @
     [PaymentsRefund (get_prop ''id'' (get_prop ''payment_details'' (data input)))
        (JObj [(''amount'', JNum (minor_units rt (amount input))),
               (''notes'', JObj [(''refund_reason'', JStr ''Refund requested by merchant'')])])]"
  by (simp add: refundPayment_def refundPayment_try_def invoke_def Let_def catch_rethrow_def
        split: sum.splits)

lemmas minor_units_eval =
  minor_units_def mul100_def toFixed0_def parseInt_def floor_rat_numeral show_nat_small
  show_nat_big digit_char_def is_white_def is_digit_def digits_val_def digit_val_def Let_def
  toUpperCase_def

text \<open>
  Claim C5, as amended. \<^verbatim>\<open>initiatePayment\<close> always calls \<^verbatim>\<open>orders.create\<close>, and
  \<^verbatim>\<open>refundPayment\<close> on a session with a payment id always calls \<^verbatim>\<open>payments.refund\<close>,
  with the amount \<^verbatim>\<open>parseInt((amount * 100).toFixed(0))\<close>; no amount is rejected. With
  \<open>p\<close> the double that \<^verbatim>\<open>amount * 100\<close> evaluates to, that amount is \<open>\<lfloor>p + 1/2\<rfloor>\<close>
  (round half up) for \<open>0 \<le> p < 10^21\<close>, it is \<open>- \<lfloor>- p + 1/2\<rfloor>\<close> (half away from zero)
  for \<open>- 10^21 < p < 0\<close>, in both cases provided that integer is a double, and it is NaN
  when the product is NaN or an infinity.
\<close>

theorem minor_units_sent:
  "gateway_calls (snd (initiatePayment rt svc input tr)) =
     gateway_calls tr @
     [OrdersCreate (JObj [(''amount'', JNum (minor_units rt (amount input))),
                          (''currency'', JStr (toUpperCase (currency_code input))),
                          (''receipt'', JStr (''medusa_'' @ show_nat (date_now rt))),
                          (''notes'', JObj [(''medusa_payment_provider'', JStr ''razorpay'')])])] \<and>
   (truthy (get_prop ''id'' (get_prop ''payment_details'' (data rinput))) \<longrightarrow>
    gateway_calls (snd (refundPayment rt svc rinput tr)) =
     gateway_calls tr @
     [PaymentsRefund (get_prop ''id'' (get_prop ''payment_details'' (data rinput)))
        (JObj [(''amount'', JNum (minor_units rt (amount rinput))),
               (''notes'', JObj [(''refund_reason'', JStr ''Refund requested by merchant'')])])]) \<and>
   (mul100 rt a = Finite p \<and> 0 \<le> p \<and> p < 10 ^ 21 \<and>
    round_double rt (of_int \<lfloor>p + 1 / 2\<rfloor>) = Finite (of_int \<lfloor>p + 1 / 2\<rfloor>) \<longrightarrow>
      minor_units rt a = Finite (of_int \<lfloor>p + 1 / 2\<rfloor>)) \<and>
   (mul100 rt a = Finite p \<and> p < 0 \<and> - (10 ^ 21) < p \<and>
    round_double rt (of_int (- \<lfloor>- p + 1 / 2\<rfloor>)) = Finite (of_int (- \<lfloor>- p + 1 / 2\<rfloor>)) \<longrightarrow>
      minor_units rt a = Finite (of_int (- \<lfloor>- p + 1 / 2\<rfloor>))) \<and>
   (mul100 rt a \<in> {NaN, PosInfinity, NegInfinity} \<longrightarrow> minor_units rt a = NaN)"
proof (intro conjI impI)
  show "gateway_calls (snd (initiatePayment rt svc input tr)) =
     gateway_calls tr @
     [OrdersCreate (JObj [(''amount'', JNum (minor_units rt (amount input))),
                          (''currency'', JStr (toUpperCase (currency_code input))),
                          (''receipt'', JStr (''medusa_'' @ show_nat (date_now rt))),
                          (''notes'', JObj [(''medusa_payment_provider'', JStr ''razorpay'')])])]"
    by (rule initiate_calls)
next
  assume "truthy (get_prop ''id'' (get_prop ''payment_details'' (data rinput)))"
  then show "gateway_calls (snd (refundPayment rt svc rinput tr)) =
     gateway_calls tr @
     [PaymentsRefund (get_prop ''id'' (get_prop ''payment_details'' (data rinput)))
        (JObj [(''amount'', JNum (minor_units rt (amount rinput))),
               (''notes'', JObj [(''refund_reason'', JStr ''Refund requested by merchant'')])])]"
    by (rule refund_calls)
next
  assume a: "mul100 rt a = Finite p \<and> 0 \<le> p \<and> p < 10 ^ 21 \<and>
    round_double rt (of_int \<lfloor>p + 1 / 2\<rfloor>) = Finite (of_int \<lfloor>p + 1 / 2\<rfloor>)"
  then have "\<bar>p\<bar> < 10 ^ 21" by simp
  with a minor_units_finite [of rt a p] show "minor_units rt a = Finite (of_int \<lfloor>p + 1 / 2\<rfloor>)"
    by simp
next
  assume a: "mul100 rt a = Finite p \<and> p < 0 \<and> - (10 ^ 21) < p \<and>
    round_double rt (of_int (- \<lfloor>- p + 1 / 2\<rfloor>)) = Finite (of_int (- \<lfloor>- p + 1 / 2\<rfloor>))"
  then have "\<bar>p\<bar> < 10 ^ 21" by simp
  with a minor_units_finite [of rt a p]
  show "minor_units rt a = Finite (of_int (- \<lfloor>- p + 1 / 2\<rfloor>))"
    by simp
next
  assume "mul100 rt a \<in> {NaN, PosInfinity, NegInfinity}"
  then show "minor_units rt a = NaN" by (rule minor_units_not_finite)
qed

theorem minor_units_sent_witness:
  "gateway_calls (snd (initiatePayment example_runtime (example_service None)
      \<lparr>data = JUndefined, amount = Finite 499, currency_code = ''inr''\<rparr> [])) =
     [OrdersCreate (JObj [(''amount'', JNum (Finite 49900)),
                          (''currency'', JStr ''INR''),
                          (''receipt'', JStr ''medusa_1700000000000''),
                          (''notes'', JObj [(''medusa_payment_provider'', JStr ''razorpay'')])])] \<and>
   truthy (get_prop ''id'' (get_prop ''payment_details''
      (data \<lparr>data = JObj [(''payment_details'', JObj [(''id'', JStr ''pay_1'')])], amount = Finite (1 / 8)\<rparr>))) \<and>
   gateway_calls (snd (refundPayment example_runtime (example_service None)
      \<lparr>data = JObj [(''payment_details'', JObj [(''id'', JStr ''pay_1'')])], amount = Finite (1 / 8)\<rparr> [])) =
     [PaymentsRefund (JStr ''pay_1'')
        (JObj [(''amount'', JNum (Finite 13)),
               (''notes'', JObj [(''refund_reason'', JStr ''Refund requested by merchant'')])])] \<and>
   mul100 example_runtime (Finite 499) = Finite 49900 \<and>
   minor_units example_runtime (Finite 499) = Finite 49900 \<and>
   mul100 example_runtime (Finite (- (1 / 8))) = Finite (- (25 / 2)) \<and>
   minor_units example_runtime (Finite (- (1 / 8))) = Finite (- 13) \<and>
   mul100 example_runtime NaN = NaN \<and>
   minor_units example_runtime NaN = NaN"
proof -
  let ?i = "\<lparr>data = JUndefined, amount = Finite 499, currency_code = ''inr''\<rparr>"
  let ?r = "\<lparr>data = JObj [(''payment_details'', JObj [(''id'', JStr ''pay_1'')])], amount = Finite (1 / 8)\<rparr>"
  have m1: "mul100 example_runtime (Finite 499) = Finite 49900"
    by (simp add: mul100_def example_runtime_def)
  have m2: "mul100 example_runtime (Finite (1 / 8)) = Finite (25 / 2)"
    by (simp add: mul100_def example_runtime_def)
  have m3: "mul100 example_runtime (Finite (- (1 / 8))) = Finite (- (25 / 2))"
    by (simp add: mul100_def example_runtime_def)
  have m4: "mul100 example_runtime NaN = NaN"
    by (simp add: mul100_def)
  have t: "truthy (get_prop ''id'' (get_prop ''payment_details'' (data ?r)))"
    by (simp add: lookup_def)
  have r: "round_double example_runtime x = Finite x" for x
    by (simp add: example_runtime_def)
  have v1: "minor_units example_runtime (Finite 499) = Finite 49900"
    using minor_units_sent [where rt = example_runtime and a = "Finite 499" and p = 49900] m1 r
    by (simp add: floor_rat_numeral)
  have v2: "minor_units example_runtime (Finite (1 / 8)) = Finite 13"
    using minor_units_sent [where rt = example_runtime and a = "Finite (1 / 8)" and p = "25 / 2"] m2 r
    by (simp add: floor_rat_numeral)
  have v3: "minor_units example_runtime (Finite (- (1 / 8))) = Finite (- 13)"
    using minor_units_sent [where rt = example_runtime and a = "Finite (- (1 / 8))" and p = "- (25 / 2)"]
      m3 r
    by (simp add: floor_rat_numeral)
  have v4: "minor_units example_runtime NaN = NaN"
    using minor_units_sent [where rt = example_runtime and a = NaN] m4 by simp
  have c1: "gateway_calls (snd (initiatePayment example_runtime (example_service None) ?i [])) =
     [OrdersCreate (JObj [(''amount'', JNum (Finite 49900)),
                          (''currency'', JStr ''INR''),
                          (''receipt'', JStr ''medusa_1700000000000''),
                          (''notes'', JObj [(''medusa_payment_provider'', JStr ''razorpay'')])])]"
    using minor_units_sent [where rt = example_runtime and svc = "example_service None"
        and input = ?i and tr = "[]"] v1
    by (simp add: toUpperCase_def show_nat_small show_nat_big digit_char_def example_runtime_def)
  have c2: "gateway_calls (snd (refundPayment example_runtime (example_service None) ?r [])) =
     [PaymentsRefund (JStr ''pay_1'')
        (JObj [(''amount'', JNum (Finite 13)),
               (''notes'', JObj [(''refund_reason'', JStr ''Refund requested by merchant'')])])]"
    using minor_units_sent [where rt = example_runtime and svc = "example_service None"
        and rinput = ?r and tr = "[]"] t v2
    by (simp add: lookup_def)
  from c1 t c2 m1 v1 m3 v3 m4 v4 show ?thesis by blast
qed

text \<open>
  The claim as stated fails: a negative amount is not rejected. For the amount \<open>- 5\<close>
  an order over \<open>- 500\<close> minor units is created at the gateway and returned.
\<close>

theorem negative_amount_sent_counterexample:
  "initiatePayment example_runtime (example_service None)
      \<lparr>data = JUndefined, amount = Finite (- 5), currency_code = ''inr''\<rparr> [] =
   (Inr \<lparr>data = JObj [(''id'', JStr ''order_1''), (''amount'', JNum (Finite (- 500))),
                      (''status'', JStr ''created'')],
         order_id = JStr ''order_1''\<rparr>,
    [GatewayCall (OrdersCreate (JObj [(''amount'', JNum (Finite (- 500))),
                          (''currency'', JStr ''INR''),
                          (''receipt'', JStr ''medusa_1700000000000''),
                          (''notes'', JObj [(''medusa_payment_provider'', JStr ''razorpay'')])]))])"
  by (simp add: initiatePayment_def initiatePayment_try_def minor_units_eval example_defs)

end
